theory Spec2Isabelle
  imports Main
begin

section \<open>The Dwolla client library: data model\<close>

text \<open>
  The customer module (\<^verbatim>\<open>dwolla/customer/customer.go\<close>) and the facade
  (\<^verbatim>\<open>dwolla/dwolla.go\<close>) are embedded function by function. Everything the Go code
  obtains from outside the two files is a parameter of the model: the client (its root
  URL and the outcome of \<^verbatim>\<open>AuthToken()\<close>), the HTTP transport \<^verbatim>\<open>hc.Do\<close>,
  \<^verbatim>\<open>http.NewRequest\<close>, \<^verbatim>\<open>json.Marshal\<close>, the JSON decoders and the multipart
  writer. The theorems hold for every behaviour of these parameters.

  An operation of the model returns its Go result together with its effects. Pointer
  arguments and receivers (\<^verbatim>\<open>*Customer\<close>, \<^verbatim>\<open>*funding.Resource\<close>, \<^verbatim>\<open>*os.File\<close>) are
  non-nil: the model takes the value pointed to. \<^verbatim>\<open>defer res.Body.Close()\<close> has no
  effect on what an operation returns or sends.
\<close>

subsection \<open>Errors and results\<close>

text \<open>
  \<^verbatim>\<open>errors.New(msg)\<close> and \<^verbatim>\<open>errors.Wrap(err, msg)\<close> of \<^verbatim>\<open>github.com/pkg/errors\<close>.
  Errors handed in by the environment (transport, JSON, token) are values of the same type.
\<close>

datatype error = New string | Wrap error string

text \<open>
  A Go function returning \<^verbatim>\<open>(T, error)\<close> returns either a value with a nil error or
  a zero value with an error; a call of a method on a nil interface panics.
\<close>

datatype failure = Err error | Panic string

type_synonym 'a result = "failure + 'a"

definition nil_dereference :: string where
  "nil_dereference = ''invalid memory address or nil pointer dereference''"

subsection \<open>The client\<close>

text \<open>
  \<^verbatim>\<open>client.Link\<close> and the interface \<^verbatim>\<open>client.DwollaClient\<close> are declared in the package
  \<^verbatim>\<open>dwolla/client\<close>. The customer module uses the field \<^verbatim>\<open>Href\<close> of a link and the
  methods \<^verbatim>\<open>AuthToken() (string, error)\<close> and \<^verbatim>\<open>RootURL() string\<close> of a client; the
  model records what the two methods return during one operation.
\<close>

record Link =
  Href :: string

record DwollaClient =
  AuthToken :: "error + string"
  RootURL :: string

subsection \<open>Entities\<close>

text \<open>A nil interface value in the field \<^verbatim>\<open>Client\<close> is \<open>None\<close>; a Go map is a partial function.\<close>

record Customer =
  Client :: "DwollaClient option"
  ID :: string
  FirstName :: string
  LastName :: string
  Email :: string
  Type :: string
  Status :: string
  BusinessName :: string
  IPAddress :: string
  CreatedAt :: string
  DateOfBirth :: string
  SSN :: string
  State :: string
  PostalCode :: string
  City :: string
  Address :: string
  Passport :: string
  Links :: "string \<rightharpoonup> Link"

record Document =
  Client :: "DwollaClient option"
  Links :: "string \<rightharpoonup> Link"
  ID :: string
  Status :: string
  Type :: string
  CreatedAt :: string

record listCustomersResponse =
  Links :: "string \<rightharpoonup> Link"
  Embedded :: "string \<rightharpoonup> Customer list"

record listDocumentsResponse =
  Links :: "string \<rightharpoonup> Link"
  Embedded :: "string \<rightharpoonup> Document list"

record createFudingSourceToken =
  Token :: string
  Links :: "string \<rightharpoonup> (string \<rightharpoonup> string)"

text \<open>
  \<^verbatim>\<open>funding.Resource\<close> and \<^verbatim>\<open>funding.ListResourcesResponse\<close> of the package
  \<^verbatim>\<open>dwolla/funding\<close>, with the fields that \<^verbatim>\<open>ListFundingSources\<close> reads and writes
  (customer.go, lines 475 to 491).
\<close>

record Resource =
  Client :: "DwollaClient option"
  ID :: string
  Status :: string
  AccountNumber :: string
  RoutingNumber :: string
  BankAccountType :: string
  Name :: string
  BankName :: string
  Type :: string
  CreatedAt :: string
  Removed :: bool
  PlaidToken :: string
  Channels :: "string list"
  Links :: "string \<rightharpoonup> Link"

record ListResourcesResponse =
  Links :: "string \<rightharpoonup> Link"
  Embedded :: "string \<rightharpoonup> Resource list"

text \<open>
  \<^verbatim>\<open>transfer.ListTransferResponse\<close>: the customer module only reads its field
  \<^verbatim>\<open>Embedded\<close>; the type of a transfer stays a type parameter.
\<close>

record 'tr ListTransferResponse =
  Embedded :: "string \<rightharpoonup> 'tr list"

text \<open>
  Indexing a Go map whose values are slices: a missing key (and a nil map) gives the nil
  slice, which has no elements. Slices are lists; the nil slice and the empty slice are
  both \<open>[]\<close>.
\<close>

definition index_slices :: "('k \<rightharpoonup> 'a list) \<Rightarrow> 'k \<Rightarrow> 'a list" where
  "index_slices m k = (case m k of None \<Rightarrow> [] | Some xs \<Rightarrow> xs)"

text \<open>Indexing a map of links: a missing key gives the zero link, whose \<^verbatim>\<open>Href\<close> is empty.\<close>

definition index_links :: "(string \<rightharpoonup> Link) \<Rightarrow> string \<Rightarrow> Link" where
  "index_links m k = (case m k of None \<Rightarrow> \<lparr>Href = []\<rparr> | Some l \<Rightarrow> l)"

subsection \<open>HTTP\<close>

text \<open>
  An \<^verbatim>\<open>http.Header\<close> maps a key to the list of its values. \<^verbatim>\<open>Add\<close> appends a value,
  \<^verbatim>\<open>Get\<close> returns the first value or the empty string. Go canonicalises the key on both;
  every key the module passes (Authorization, Accept, Content-Type, Conetent-Type,
  Cache-Control, Location) is in canonical form already.
\<close>

type_synonym Header = "string \<rightharpoonup> string list"

definition Header_Add :: "Header \<Rightarrow> string \<Rightarrow> string \<Rightarrow> Header" where
  "Header_Add h k v = h(k \<mapsto> index_slices h k @ [v])"

definition Header_Get :: "Header \<Rightarrow> string \<Rightarrow> string" where
  "Header_Get h k = (case index_slices h k of [] \<Rightarrow> [] | v # _ \<Rightarrow> v)"

record Request =
  Method :: string
  URL :: string
  Header :: Header
  Body :: "string option"

record Response =
  StatusCode :: int
  Status :: string
  Header :: Header
  Body :: string

text \<open>\<^verbatim>\<open>req.Header.Add(k, v)\<close>\<close>

definition req_Header_Add :: "Request \<Rightarrow> string \<Rightarrow> string \<Rightarrow> Request" where
  "req_Header_Add req k v = req\<lparr>Request.Header := Header_Add (Request.Header req) k v\<rparr>"

text \<open>An \<^verbatim>\<open>*os.File\<close>: its name and what reading it to the end gives.\<close>

record File =
  Name :: string
  Contents :: "error + string"

subsection \<open>The environment\<close>

text \<open>
  \<^item> \<open>NewRequest_err\<close>: the error of \<^verbatim>\<open>http.NewRequest(method, url, body)\<close>, if any;
  \<^item> \<open>Do\<close>: \<^verbatim>\<open>hc.Do(req)\<close>, a transport error or the response;
  \<^item> \<open>Marshal_Customer\<close>, \<open>Marshal_Resource\<close>: \<^verbatim>\<open>json.Marshal\<close>;
  \<^item> \<open>Decode_*\<close>: \<^verbatim>\<open>json.NewDecoder(res.Body).Decode(body)\<close> on a zero struct: the struct
    after the call (which a failed decode may have filled in part) and the error, if any;
  \<^item> \<open>CreateFormFile\<close>, \<open>WriteField\<close>, \<open>Close\<close>: the bytes the multipart writer appends
    to its buffer, or its error.
\<close>

record 'tr World =
  NewRequest_err :: "string \<Rightarrow> string \<Rightarrow> error option"
  Do :: "Request \<Rightarrow> error + Response"
  Marshal_Customer :: "Customer \<Rightarrow> error + string"
  Marshal_Resource :: "Resource \<Rightarrow> error + string"
  Decode_listCustomersResponse :: "string \<Rightarrow> listCustomersResponse \<times> error option"
  Decode_Customer :: "string \<Rightarrow> Customer \<times> error option"
  Decode_listDocumentsResponse :: "string \<Rightarrow> listDocumentsResponse \<times> error option"
  Decode_Document :: "string \<Rightarrow> Document \<times> error option"
  Decode_createFudingSourceToken :: "string \<Rightarrow> createFudingSourceToken \<times> error option"
  Decode_ListResourcesResponse :: "string \<Rightarrow> ListResourcesResponse \<times> error option"
  Decode_ListTransferResponse :: "string \<Rightarrow> 'tr ListTransferResponse \<times> error option"
  CreateFormFile :: "string \<Rightarrow> string \<Rightarrow> error + string"
  WriteField :: "string \<Rightarrow> string \<Rightarrow> error + string"
  Close :: string

definition NewRequest :: "'tr World \<Rightarrow> string \<Rightarrow> string \<Rightarrow> string option \<Rightarrow> error + Request" where
  "NewRequest w method url body =
     (case NewRequest_err w method url of
        Some err \<Rightarrow> Inl err
      | None \<Rightarrow> Inr \<lparr>Method = method, URL = url, Request.Header = Map.empty, Body = body\<rparr>)"

text \<open>
  What an operation does besides returning: the requests it handed to \<^verbatim>\<open>hc.Do\<close>, in
  order, and what it wrote to standard output.
\<close>

record Effects =
  sent :: "Request list"
  stdout :: string

definition no_effects :: Effects where
  "no_effects = \<lparr>sent = [], stdout = []\<rparr>"

definition sent_only :: "Request \<Rightarrow> Effects" where
  "sent_only req = \<lparr>sent = [req], stdout = []\<rparr>"

text \<open>The responses an operation received: what the transport answered to the requests it sent.\<close>

definition responses :: "'tr World \<Rightarrow> Effects \<Rightarrow> Response list" where
  "responses w eff =
     List.map_filter (\<lambda>req. case Do w req of Inl err \<Rightarrow> None | Inr res \<Rightarrow> Some res) (sent eff)"

subsection \<open>Strings\<close>

text \<open>\<^verbatim>\<open>strings.HasPrefix\<close> and \<^verbatim>\<open>strings.TrimPrefix\<close>.\<close>

definition HasPrefix :: "string \<Rightarrow> string \<Rightarrow> bool" where
  "HasPrefix s p = (length p \<le> length s \<and> take (length p) s = p)"

definition TrimPrefix :: "string \<Rightarrow> string \<Rightarrow> string" where
  "TrimPrefix s p = (if HasPrefix s p then drop (length p) s else s)"

section \<open>The customer module\<close>

text \<open>\<^verbatim>\<open>func Create(c client.DwollaClient, cu *Customer) (string, error)\<close>\<close>

definition Create :: "'tr World \<Rightarrow> DwollaClient option \<Rightarrow> Customer \<Rightarrow> string result \<times> Effects" where
  "Create w c cu =
    (case c of
       None \<Rightarrow> (Inl (Panic nil_dereference), no_effects)
     | Some cl \<Rightarrow>
    (case AuthToken cl of
       Inl err \<Rightarrow> (Inl (Err (Wrap err ''failed to get auth token'')), no_effects)
     | Inr token \<Rightarrow>
    (case Marshal_Customer w cu of
       Inl err \<Rightarrow> (Inl (Err (Wrap err ''error marshalling customer into req body'')), no_effects)
     | Inr body \<Rightarrow>
    (case NewRequest w ''POST'' (RootURL cl @ ''/customers'') (Some body) of
       Inl err \<Rightarrow> (Inl (Err (Wrap err ''error creating the request'')), no_effects)
     | Inr req0 \<Rightarrow>
       let req1 = req_Header_Add req0 ''Authorization'' (''Bearer '' @ token);
           req2 = req_Header_Add req1 ''Accept'' ''application/vnd.dwolla.v1.hal+json'';
           req = req_Header_Add req2 ''Content-Type'' ''application/vnd.dwolla.v1.hal+json''
       in
    (case Do w req of
       Inl err \<Rightarrow> (Inl (Err (Wrap err ''failed to make request to dwolla api'')), sent_only req)
     | Inr res \<Rightarrow>
       if StatusCode res = 201 then
         (Inr (TrimPrefix (Header_Get (Response.Header res) ''Location'')
                 (RootURL cl @ ''/customers/'')), sent_only req)
       else if StatusCode res = 403 then
         (Inl (Err (New ''not authorized to create customers'')), sent_only req)
       else if StatusCode res = 400 then
         (Inl (Err (New ''duplicate customer or validation error'')),
          \<lparr>sent = [req], stdout = Response.Body res\<rparr>)
       else if StatusCode res = 404 then
         (Inl (Err (New ''account not found'')), sent_only req)
       else
         (Inl (Err (New (Response.Status res))), sent_only req))))))"

text \<open>
  \<^verbatim>\<open>func List(c client.DwollaClient) ([]Customer, error)\<close>

  The loop \<^verbatim>\<open>for _, customer := range body.Embedded["customers"] { customer.Client = c }\<close>
  copies each element into the loop variable \<^verbatim>\<open>customer\<close> and assigns the field of
  that copy. The state of the loop is the slice together with the loop variable; the
  first argument is what remains to be visited.
\<close>

fun List_range ::
  "DwollaClient option \<Rightarrow> Customer list \<Rightarrow> Customer list \<times> Customer option
     \<Rightarrow> Customer list \<times> Customer option" where
  "List_range c [] (slice, customer) = (slice, customer)"
| "List_range c (x # rest) (slice, customer) =
     List_range c rest (slice, Some (x\<lparr>Customer.Client := c\<rparr>))"

definition List :: "'tr World \<Rightarrow> DwollaClient option \<Rightarrow> Customer list result \<times> Effects" where
  "List w c =
    (case c of
       None \<Rightarrow> (Inl (Panic nil_dereference), no_effects)
     | Some cl \<Rightarrow>
    (case AuthToken cl of
       Inl err \<Rightarrow> (Inl (Err (Wrap err ''failed to get auth token'')), no_effects)
     | Inr token \<Rightarrow>
    (case NewRequest w ''GET'' (RootURL cl @ ''/customers'') None of
       Inl err \<Rightarrow> (Inl (Err (Wrap err ''error creating the request'')), no_effects)
     | Inr req0 \<Rightarrow>
       let req1 = req_Header_Add req0 ''Authorization'' (''Bearer '' @ token);
           req = req_Header_Add req1 ''Accept'' ''application/vnd.dwolla.v1.hal+json''
       in
    (case Do w req of
       Inl err \<Rightarrow> (Inl (Err (Wrap err ''failed to make request to dwolla api'')), sent_only req)
     | Inr res \<Rightarrow>
       if StatusCode res = 200 then
         (let (body, err) = Decode_listCustomersResponse w (Response.Body res);
              customers = index_slices (listCustomersResponse.Embedded body) ''customers'';
              (customers', customer) = List_range c customers (customers, None)
          in (Inr customers', sent_only req))
       else if StatusCode res = 403 then
         (Inl (Err (New ''not authorized to list customers'')), sent_only req)
       else if StatusCode res = 404 then
         (Inl (Err (New ''account not found'')), sent_only req)
       else
         (Inl (Err (New (Response.Status res))), sent_only req)))))"

text \<open>\<^verbatim>\<open>func GetCustomer(c client.DwollaClient, customerID string) (*Customer, error)\<close>\<close>

definition GetCustomer ::
  "'tr World \<Rightarrow> DwollaClient option \<Rightarrow> string \<Rightarrow> Customer result \<times> Effects" where
  "GetCustomer w c customerID =
    (case c of
       None \<Rightarrow> (Inl (Panic nil_dereference), no_effects)
     | Some cl \<Rightarrow>
    (case AuthToken cl of
       Inl err \<Rightarrow> (Inl (Err (Wrap err ''failed to get auth token'')), no_effects)
     | Inr token \<Rightarrow>
    (case NewRequest w ''GET'' (RootURL cl @ ''/customers/'' @ customerID) None of
       Inl err \<Rightarrow> (Inl (Err (Wrap err ''error creating the request'')), no_effects)
     | Inr req0 \<Rightarrow>
       let req1 = req_Header_Add req0 ''Authorization'' (''Bearer '' @ token);
           req = req_Header_Add req1 ''Accept'' ''application/vnd.dwolla.v1.hal+json''
       in
    (case Do w req of
       Inl err \<Rightarrow> (Inl (Err (Wrap err ''failed to make request to dwolla api'')), sent_only req)
     | Inr res \<Rightarrow>
       if StatusCode res = 200 then
         (let (body, err) = Decode_Customer w (Response.Body res)
          in case err of
               Some e \<Rightarrow> (Inl (Err (Wrap e ''error parsing JSON response'')), sent_only req)
             | None \<Rightarrow> (Inr (body\<lparr>Customer.Client := c\<rparr>), sent_only req))
       else if StatusCode res = 403 then
         (Inl (Err (New ''not authorized to retrieve the customer'')), sent_only req)
       else if StatusCode res = 404 then
         (Inl (Err (New ''account not found'')), sent_only req)
       else
         (Inl (Err (New (Response.Status res))), sent_only req)))))"

text \<open>
  \<^verbatim>\<open>func (cu *Customer) Update() error\<close>

  The methods take the customer the receiver points to; \<^verbatim>\<open>var c = cu.Client\<close> may be the
  nil interface, and the call \<^verbatim>\<open>c.AuthToken()\<close> then panics.
\<close>

definition Update :: "'tr World \<Rightarrow> Customer \<Rightarrow> unit result \<times> Effects" where
  "Update w cu =
    (case Customer.Client cu of
       None \<Rightarrow> (Inl (Panic nil_dereference), no_effects)
     | Some c \<Rightarrow>
    (case AuthToken c of
       Inl err \<Rightarrow> (Inl (Err (Wrap err ''failed to get auth token'')), no_effects)
     | Inr token \<Rightarrow>
    (case Marshal_Customer w cu of
       Inl err \<Rightarrow> (Inl (Err (Wrap err ''error marshalling customer into req body'')), no_effects)
     | Inr body \<Rightarrow>
    (case NewRequest w ''POST'' (RootURL c @ ''/customers/'' @ Customer.ID cu) (Some body) of
       Inl err \<Rightarrow> (Inl (Err (Wrap err ''error creating the request'')), no_effects)
     | Inr req0 \<Rightarrow>
       let req1 = req_Header_Add req0 ''Authorization'' (''Bearer '' @ token);
           req2 = req_Header_Add req1 ''Accept'' ''application/vnd.dwolla.v1.hal+json'';
           req = req_Header_Add req2 ''Content-Type'' ''application/vnd.dwolla.v1.hal+json''
       in
    (case Do w req of
       Inl err \<Rightarrow> (Inl (Err (Wrap err ''failed to make request to dwolla api'')), sent_only req)
     | Inr res \<Rightarrow>
       if StatusCode res = 200 then
         (Inr (), sent_only req)
       else if StatusCode res = 403 then
         (Inl (Err (New ''not authorized to update the customer'')), sent_only req)
       else if StatusCode res = 404 then
         (Inl (Err (New ''account not found'')), sent_only req)
       else
         (Inl (Err (New (Response.Status res))), sent_only req))))))"

text \<open>
  \<^verbatim>\<open>func (cu *Customer) AddDocument(file *os.File, documentType string) error\<close>

  The second test of \<^verbatim>\<open>err\<close> after the token (``error parsing file'') follows a test
  of the same variable and never fires. The multipart body is what \<^verbatim>\<open>CreateFormFile\<close>,
  \<^verbatim>\<open>io.Copy\<close>, \<^verbatim>\<open>WriteField\<close> and \<^verbatim>\<open>Close\<close> write to the buffer, in this order.
\<close>

definition AddDocument :: "'tr World \<Rightarrow> Customer \<Rightarrow> File \<Rightarrow> string \<Rightarrow> unit result \<times> Effects" where
  "AddDocument w cu file documentType =
    (case Customer.Client cu of
       None \<Rightarrow> (Inl (Panic nil_dereference), no_effects)
     | Some c \<Rightarrow>
    (case AuthToken c of
       Inl err \<Rightarrow> (Inl (Err (Wrap err ''failed to get auth token'')), no_effects)
     | Inr token \<Rightarrow>
    (case CreateFormFile w ''file'' (Name file) of
       Inl err \<Rightarrow> (Inl (Err (Wrap err ''error uploading file'')), no_effects)
     | Inr part_header \<Rightarrow>
    (case Contents file of
       Inl err \<Rightarrow> (Inl (Err (Wrap err ''error uploading file'')), no_effects)
     | Inr copied \<Rightarrow>
    (case WriteField w ''documentType'' documentType of
       Inl err \<Rightarrow> (Inl (Err (Wrap err ''error uploading file'')), no_effects)
     | Inr field \<Rightarrow>
       let body = part_header @ copied @ field @ Close w in
    (case NewRequest w ''POST'' (RootURL c @ ''/customers/+'' @ Customer.ID cu @ ''/documents'')
            (Some body) of
       Inl err \<Rightarrow> (Inl (Err (Wrap err ''error creating the request'')), no_effects)
     | Inr req0 \<Rightarrow>
       let req1 = req_Header_Add req0 ''Authorization'' (''Bearer '' @ token);
           req2 = req_Header_Add req1 ''Accept'' ''application/vnd.dwolla.v1.hal+json'';
           req3 = req_Header_Add req2 ''Content-Type''
                    ''multipart/form-data; boundary=----WebKitFormBoundary7MA4YWxkTrZu0gW'';
           req = req_Header_Add req3 ''Cache-Control'' ''no-cache''
       in
    (case Do w req of
       Inl err \<Rightarrow> (Inl (Err (Wrap err ''failed to make request to dwolla api'')), sent_only req)
     | Inr res \<Rightarrow>
       if StatusCode res = 201 then
         (Inr (), sent_only req)
       else if StatusCode res = 403 then
         (Inl (Err (New ''not authorized to uplaod document to customer'')), sent_only req)
       else if StatusCode res = 404 then
         (Inl (Err (New ''account not found'')), sent_only req)
       else
         (Inl (Err (New (Response.Status res))), sent_only req))))))))"

text \<open>\<^verbatim>\<open>func (cu *Customer) ListDocuments() ([]Document, error)\<close>\<close>

definition ListDocuments :: "'tr World \<Rightarrow> Customer \<Rightarrow> Document list result \<times> Effects" where
  "ListDocuments w cu =
    (case Customer.Client cu of
       None \<Rightarrow> (Inl (Panic nil_dereference), no_effects)
     | Some c \<Rightarrow>
    (case AuthToken c of
       Inl err \<Rightarrow> (Inl (Err (Wrap err ''failed to get auth token'')), no_effects)
     | Inr token \<Rightarrow>
    (case NewRequest w ''GET'' (RootURL c @ ''/customers/'' @ Customer.ID cu @ ''/documents'') None of
       Inl err \<Rightarrow> (Inl (Err (Wrap err ''error creating the request'')), no_effects)
     | Inr req0 \<Rightarrow>
       let req1 = req_Header_Add req0 ''Authorization'' (''Bearer '' @ token);
           req = req_Header_Add req1 ''Accept'' ''application/vnd.dwolla.v1.hal+json''
       in
    (case Do w req of
       Inl err \<Rightarrow> (Inl (Err (Wrap err ''failed to make request to dwolla api'')), sent_only req)
     | Inr res \<Rightarrow>
       if StatusCode res = 200 then
         (let (body, err) = Decode_listDocumentsResponse w (Response.Body res)
          in (Inr (index_slices (listDocumentsResponse.Embedded body) ''documents''), sent_only req))
       else if StatusCode res = 403 then
         (Inl (Err (New ''not authorized to list customers'')), sent_only req)
       else if StatusCode res = 404 then
         (Inl (Err (New ''account not found'')), sent_only req)
       else
         (Inl (Err (New (Response.Status res))), sent_only req)))))"

text \<open>\<^verbatim>\<open>func GetDocument(c client.DwollaClient, docuemntID string) (*Document, error)\<close>\<close>

definition GetDocument ::
  "'tr World \<Rightarrow> DwollaClient option \<Rightarrow> string \<Rightarrow> Document result \<times> Effects" where
  "GetDocument w c docuemntID =
    (case c of
       None \<Rightarrow> (Inl (Panic nil_dereference), no_effects)
     | Some cl \<Rightarrow>
    (case AuthToken cl of
       Inl err \<Rightarrow> (Inl (Err (Wrap err ''failed to get auth token'')), no_effects)
     | Inr token \<Rightarrow>
    (case NewRequest w ''GET'' (RootURL cl @ ''/documents/'' @ docuemntID) None of
       Inl err \<Rightarrow> (Inl (Err (Wrap err ''error creating the request'')), no_effects)
     | Inr req0 \<Rightarrow>
       let req1 = req_Header_Add req0 ''Authorization'' (''Bearer '' @ token);
           req = req_Header_Add req1 ''Accept'' ''application/vnd.dwolla.v1.hal+json''
       in
    (case Do w req of
       Inl err \<Rightarrow> (Inl (Err (Wrap err ''failed to make request to dwolla api'')), sent_only req)
     | Inr res \<Rightarrow>
       if StatusCode res = 200 then
         (let (body, err) = Decode_Document w (Response.Body res)
          in (Inr body, sent_only req))
       else if StatusCode res = 403 then
         (Inl (Err (New ''not authorized to retrieve the customer'')), sent_only req)
       else if StatusCode res = 404 then
         (Inl (Err (New ''account not found'')), sent_only req)
       else
         (Inl (Err (New (Response.Status res))), sent_only req)))))"

text \<open>\<^verbatim>\<open>func (cu *Customer) CreateFundingSource(f *funding.Resource) error\<close>\<close>

definition CreateFundingSource :: "'tr World \<Rightarrow> Customer \<Rightarrow> Resource \<Rightarrow> unit result \<times> Effects" where
  "CreateFundingSource w cu f =
    (case Customer.Client cu of
       None \<Rightarrow> (Inl (Panic nil_dereference), no_effects)
     | Some c \<Rightarrow>
    (case AuthToken c of
       Inl err \<Rightarrow> (Inl (Err (Wrap err ''failed to get auth token'')), no_effects)
     | Inr token \<Rightarrow>
    (case Marshal_Resource w f of
       Inl err \<Rightarrow> (Inl (Err (Wrap err ''error marshalling customer into req body'')), no_effects)
     | Inr body \<Rightarrow>
    (case NewRequest w ''POST'' (RootURL c @ ''/customers/'' @ Customer.ID cu @ ''/funding-sources'')
            (Some body) of
       Inl err \<Rightarrow> (Inl (Err (Wrap err ''error creating the request'')), no_effects)
     | Inr req0 \<Rightarrow>
       let req1 = req_Header_Add req0 ''Authorization'' (''Bearer '' @ token);
           req2 = req_Header_Add req1 ''Accept'' ''application/vnd.dwolla.v1.hal+json'';
           req = req_Header_Add req2 ''Content-Type'' ''application/vnd.dwolla.v1.hal+json''
       in
    (case Do w req of
       Inl err \<Rightarrow> (Inl (Err (Wrap err ''failed to make request to dwolla api'')), sent_only req)
     | Inr res \<Rightarrow>
       if StatusCode res = 201 then
         (Inr (), sent_only req)
       else if StatusCode res = 403 then
         (Inl (Err (New ''not authorized to create funding source'')), sent_only req)
       else if StatusCode res = 400 then
         (Inl (Err (New ''duplicate funding source or validation error. Authorization already associated to a funding source'')),
          sent_only req)
       else
         (Inl (Err (New (Response.Status res))), sent_only req))))))"

text \<open>\<^verbatim>\<open>func (cu *Customer) CreateFundingSourceToken() (string, error)\<close>\<close>

definition CreateFundingSourceToken :: "'tr World \<Rightarrow> Customer \<Rightarrow> string result \<times> Effects" where
  "CreateFundingSourceToken w cu =
    (case Customer.Client cu of
       None \<Rightarrow> (Inl (Panic nil_dereference), no_effects)
     | Some c \<Rightarrow>
    (case AuthToken c of
       Inl err \<Rightarrow> (Inl (Err (Wrap err ''failed to get auth token'')), no_effects)
     | Inr token \<Rightarrow>
    (case NewRequest w ''POST'' (RootURL c @ ''/customers/'' @ Customer.ID cu @ ''/funding-sources-token'')
            None of
       Inl err \<Rightarrow> (Inl (Err (Wrap err ''error creating the request'')), no_effects)
     | Inr req0 \<Rightarrow>
       let req1 = req_Header_Add req0 ''Authorization'' (''Bearer '' @ token);
           req2 = req_Header_Add req1 ''Accept'' ''application/vnd.dwolla.v1.hal+json'';
           req = req_Header_Add req2 ''Content-Type'' ''application/vnd.dwolla.v1.hal+json''
       in
    (case Do w req of
       Inl err \<Rightarrow> (Inl (Err (Wrap err ''failed to make request to dwolla api'')), sent_only req)
     | Inr res \<Rightarrow>
       if StatusCode res = 200 then
         (let (body, err) = Decode_createFudingSourceToken w (Response.Body res)
          in (Inr (Token body), sent_only req))
       else if StatusCode res = 404 then
         (Inl (Err (New ''customer not found'')), sent_only req)
       else
         (Inl (Err (New (Response.Status res))), sent_only req)))))"

text \<open>\<^verbatim>\<open>func (cu *Customer) CreateIAVFundingSourceToken() (string, error)\<close>\<close>

definition CreateIAVFundingSourceToken :: "'tr World \<Rightarrow> Customer \<Rightarrow> string result \<times> Effects" where
  "CreateIAVFundingSourceToken w cu =
    (case Customer.Client cu of
       None \<Rightarrow> (Inl (Panic nil_dereference), no_effects)
     | Some c \<Rightarrow>
    (case AuthToken c of
       Inl err \<Rightarrow> (Inl (Err (Wrap err ''failed to get auth token'')), no_effects)
     | Inr token \<Rightarrow>
    (case NewRequest w ''POST'' (RootURL c @ ''/customers/'' @ Customer.ID cu @ ''/iav-token'') None of
       Inl err \<Rightarrow> (Inl (Err (Wrap err ''error creating the request'')), no_effects)
     | Inr req0 \<Rightarrow>
       let req1 = req_Header_Add req0 ''Authorization'' (''Bearer '' @ token);
           req2 = req_Header_Add req1 ''Accept'' ''application/vnd.dwolla.v1.hal+json'';
           req = req_Header_Add req2 ''Conetent-Type'' ''application/vnd.dwolla.v1.hal+json''
       in
    (case Do w req of
       Inl err \<Rightarrow> (Inl (Err (Wrap err ''failed to make request to dwolla api'')), sent_only req)
     | Inr res \<Rightarrow>
       if StatusCode res = 200 then
         (let (body, err) = Decode_createFudingSourceToken w (Response.Body res)
          in (Inr (Token body), sent_only req))
       else if StatusCode res = 404 then
         (Inl (Err (New ''customer not found'')), sent_only req)
       else
         (Inl (Err (New (Response.Status res))), sent_only req)))))"

text \<open>
  \<^verbatim>\<open>func (cu *Customer) ListFundingSources() ([]funding.Resource, error)\<close>

  The loop appends to \<^verbatim>\<open>sources\<close> a copy of each decoded resource with the field
  \<^verbatim>\<open>Client\<close> set to \<^verbatim>\<open>cu.Client\<close>.
\<close>

fun ListFundingSources_range :: "Customer \<Rightarrow> Resource list \<Rightarrow> Resource list \<Rightarrow> Resource list" where
  "ListFundingSources_range cu [] sources = sources"
| "ListFundingSources_range cu (s # rest) sources =
     (let source = \<lparr>Resource.Client = Customer.Client cu,
                    ID = Resource.ID s,
                    Status = Resource.Status s,
                    AccountNumber = AccountNumber s,
                    RoutingNumber = RoutingNumber s,
                    BankAccountType = BankAccountType s,
                    Name = Resource.Name s,
                    BankName = BankName s,
                    Type = Resource.Type s,
                    CreatedAt = Resource.CreatedAt s,
                    Removed = Removed s,
                    PlaidToken = PlaidToken s,
                    Channels = Channels s,
                    Links = Resource.Links s\<rparr>
      in ListFundingSources_range cu rest (sources @ [source]))"

definition ListFundingSources :: "'tr World \<Rightarrow> Customer \<Rightarrow> Resource list result \<times> Effects" where
  "ListFundingSources w cu =
    (case Customer.Client cu of
       None \<Rightarrow> (Inl (Panic nil_dereference), no_effects)
     | Some c \<Rightarrow>
    (case AuthToken c of
       Inl err \<Rightarrow> (Inl (Err (Wrap err ''failed to get auth token'')), no_effects)
     | Inr token \<Rightarrow>
    (case NewRequest w ''GET'' (RootURL c @ ''/customers/'' @ Customer.ID cu @ ''/funding-sources'') None of
       Inl err \<Rightarrow> (Inl (Err (Wrap err ''error creating the request'')), no_effects)
     | Inr req0 \<Rightarrow>
       let req1 = req_Header_Add req0 ''Authorization'' (''Bearer '' @ token);
           req2 = req_Header_Add req1 ''Accept'' ''application/vnd.dwolla.v1.hal+json'';
           req = req_Header_Add req2 ''Conetent-Type'' ''application/vnd.dwolla.v1.hal+json''
       in
    (case Do w req of
       Inl err \<Rightarrow> (Inl (Err (Wrap err ''failed to make request to dwolla api'')), sent_only req)
     | Inr res \<Rightarrow>
       if StatusCode res = 200 then
         (let (body, err) = Decode_ListResourcesResponse w (Response.Body res);
              sources = ListFundingSources_range cu
                          (index_slices (ListResourcesResponse.Embedded body) ''funding-sources'') []
          in (Inr sources, sent_only req))
       else if StatusCode res = 403 then
         (Inl (Err (New ''not authorized to list funding sources'')), sent_only req)
       else if StatusCode res = 404 then
         (Inl (Err (New ''customer not found'')), sent_only req)
       else
         (Inl (Err (New (Response.Status res))), sent_only req)))))"

text \<open>\<^verbatim>\<open>func (cu *Customer) ListTransfers() ([]transfer.Transfer, error)\<close>\<close>

definition ListTransfers :: "'tr World \<Rightarrow> Customer \<Rightarrow> 'tr list result \<times> Effects" where
  "ListTransfers w cu =
    (case Customer.Client cu of
       None \<Rightarrow> (Inl (Panic nil_dereference), no_effects)
     | Some c \<Rightarrow>
    (case AuthToken c of
       Inl err \<Rightarrow> (Inl (Err (Wrap err ''failed to get auth token'')), no_effects)
     | Inr token \<Rightarrow>
    (case NewRequest w ''GET'' (Href (index_links (Customer.Links cu) ''self'') @ ''/transfers'') None of
       Inl err \<Rightarrow> (Inl (Err (Wrap err ''error creating the request'')), no_effects)
     | Inr req0 \<Rightarrow>
       let req1 = req_Header_Add req0 ''Authorization'' (''Bearer '' @ token);
           req = req_Header_Add req1 ''Accept'' ''application/vnd.dwolla.v1.hal+json''
       in
    (case Do w req of
       Inl err \<Rightarrow> (Inl (Err (Wrap err ''failed to make request to dwolla api'')), sent_only req)
     | Inr res \<Rightarrow>
       if StatusCode res = 200 then
         (let (body, err) = Decode_ListTransferResponse w (Response.Body res)
          in (Inr (index_slices (ListTransferResponse.Embedded body) ''transfers''), sent_only req))
       else if StatusCode res = 403 then
         (Inl (Err (New ''not authorized to list transfers'')), sent_only req)
       else if StatusCode res = 404 then
         (Inl (Err (New ''customer not found'')), sent_only req)
       else
         (Inl (Err (New (Response.Status res))), sent_only req)))))"

section \<open>The facade\<close>

text \<open>
  \<^verbatim>\<open>type Client struct { client *client.Client }\<close> of the package \<^verbatim>\<open>dwolla\<close>. The
  operations that delegate to the customer module are embedded; the account, funding and
  transfer functions that the other operations call are in packages of their own.
\<close>

record dwolla_Client =
  client :: "DwollaClient option"

text \<open>
  \<^verbatim>\<open>func (c *Client) CreateCustomer(cu *customer.Customer) error {
    return customer.Create(c.client, cu) }\<close>

  The declared result is a single \<^verbatim>\<open>error\<close>, while \<^verbatim>\<open>customer.Create\<close> returns
  \<^verbatim>\<open>(string, error)\<close>. The model keeps the declared result type: of the two values of
  \<^verbatim>\<open>Create\<close> only the error fits it.
\<close>

definition Client_CreateCustomer :: "'tr World \<Rightarrow> dwolla_Client \<Rightarrow> Customer \<Rightarrow> unit result \<times> Effects" where
  "Client_CreateCustomer w c cu =
     (case Create w (client c) cu of
        (Inl failed, eff) \<Rightarrow> (Inl failed, eff)
      | (Inr customerID, eff) \<Rightarrow> (Inr (), eff))"

text \<open>\<^verbatim>\<open>func (c *Client) ListCustomers() ([]customer.Customer, error)\<close>\<close>

definition Client_ListCustomers :: "'tr World \<Rightarrow> dwolla_Client \<Rightarrow> Customer list result \<times> Effects" where
  "Client_ListCustomers w c = List w (client c)"

text \<open>\<^verbatim>\<open>func (c *Client) GetCustomer(customerID string) (*customer.Customer, error)\<close>\<close>

definition Client_GetCustomer :: "'tr World \<Rightarrow> dwolla_Client \<Rightarrow> string \<Rightarrow> Customer result \<times> Effects" where
  "Client_GetCustomer w c customerID = GetCustomer w (client c) customerID"

text \<open>\<^verbatim>\<open>func (c *Client) GetDocument(documentID string) (*customer.Document, error)\<close>\<close>

definition Client_GetDocument :: "'tr World \<Rightarrow> dwolla_Client \<Rightarrow> string \<Rightarrow> Document result \<times> Effects" where
  "Client_GetDocument w c documentID = GetDocument w (client c) documentID"

section \<open>The error taxonomy of the specification\<close>

text \<open>
  The specification names four categories of errors by HTTP status: 400 is a
  ValidationError (``duplicate resource or validation error''), 403 an AuthorizationError
  (``not authorized to <operation>''), 404 a NotFoundError (``<resource> not found''), and
  any other status a PassthroughError carrying the raw HTTP status text. The code has no
  error types; a category is recognised by the message of an \<^verbatim>\<open>errors.New\<close> value.
\<close>

datatype category = ValidationError | AuthorizationError | NotFoundError | PassthroughError

definition documented_category :: "int \<Rightarrow> category" where
  "documented_category code =
     (if code = 400 then ValidationError
      else if code = 403 then AuthorizationError
      else if code = 404 then NotFoundError
      else PassthroughError)"

definition HasSuffix :: "string \<Rightarrow> string \<Rightarrow> bool" where
  "HasSuffix s p = HasPrefix (rev s) (rev p)"

fun Contains :: "string \<Rightarrow> string \<Rightarrow> bool" where
  "Contains [] sub = (sub = [])"
| "Contains (x # s) sub = (HasPrefix (x # s) sub \<or> Contains s sub)"

fun in_category :: "category \<Rightarrow> string \<Rightarrow> error \<Rightarrow> bool" where
  "in_category cat status (Wrap err msg) = False"
| "in_category ValidationError status (New msg) = Contains msg ''validation error''"
| "in_category AuthorizationError status (New msg) = HasPrefix msg ''not authorized to ''"
| "in_category NotFoundError status (New msg) = HasSuffix msg '' not found''"
| "in_category PassthroughError status (New msg) = (msg = status)"

section \<open>Test doubles\<close>

text \<open>A sandbox client with a token, and the zero values of the structs.\<close>

definition sandbox_client :: DwollaClient where
  "sandbox_client = \<lparr>AuthToken = Inr ''tok'', RootURL = ''https://api-sandbox.example.com''\<rparr>"

definition zero_Customer :: Customer where
  "zero_Customer =
     \<lparr>Customer.Client = None, ID = [], FirstName = [], LastName = [], Email = [], Type = [],
      Status = [], BusinessName = [], IPAddress = [], CreatedAt = [], DateOfBirth = [],
      SSN = [], State = [], PostalCode = [], City = [], Address = [], Passport = [],
      Links = Map.empty\<rparr>"

definition zero_Document :: Document where
  "zero_Document =
     \<lparr>Document.Client = None, Links = Map.empty, ID = [], Status = [], Type = [], CreatedAt = []\<rparr>"

definition zero_Resource :: Resource where
  "zero_Resource =
     \<lparr>Resource.Client = None, ID = [], Status = [], AccountNumber = [], RoutingNumber = [],
      BankAccountType = [], Name = [], BankName = [], Type = [], CreatedAt = [],
      Removed = False, PlaidToken = [], Channels = [], Links = Map.empty\<rparr>"

text \<open>The customer \<^verbatim>\<open>xyz\<close> of the sandbox client, without hypermedia links.\<close>

definition customer_xyz :: Customer where
  "customer_xyz = zero_Customer\<lparr>Customer.Client := Some sandbox_client, Customer.ID := ''xyz''\<rparr>"

definition passport_file :: File where
  "passport_file = \<lparr>Name = ''passport.png'', Contents = Inr ''PNG''\<rparr>"

text \<open>
  A remote side that answers every request with the response \<open>res\<close>. Requests are
  always well formed and marshalling succeeds. The decoders know the bodies used below
  and report a syntax error, leaving the zero struct, on every other body.
\<close>

definition syntax_error :: error where
  "syntax_error = New ''invalid character looking for beginning of value''"

definition answering :: "Response \<Rightarrow> unit World" where
  \<open>answering res =
     \<lparr>NewRequest_err = (\<lambda>method url. None),
      Do = (\<lambda>req. Inr res),
      Marshal_Customer = (\<lambda>cu. Inr ''{}''),
      Marshal_Resource = (\<lambda>f. Inr ''{}''),
      Decode_listCustomersResponse = (\<lambda>b.
        if b = ''{"_embedded":{"customers":[]}}'' then
          (\<lparr>listCustomersResponse.Links = Map.empty, Embedded = [''customers'' \<mapsto> []]\<rparr>, None)
        else if b = ''{"_embedded":{"customers":[{"id":"abc-123"}]}}'' then
          (\<lparr>listCustomersResponse.Links = Map.empty,
            Embedded = [''customers'' \<mapsto> [zero_Customer\<lparr>Customer.ID := ''abc-123''\<rparr>]]\<rparr>, None)
        else (\<lparr>listCustomersResponse.Links = Map.empty, Embedded = Map.empty\<rparr>, Some syntax_error)),
      Decode_Customer = (\<lambda>b.
        if b = ''{"id":"abc-123"}'' then (zero_Customer\<lparr>Customer.ID := ''abc-123''\<rparr>, None)
        else (zero_Customer, Some syntax_error)),
      Decode_listDocumentsResponse = (\<lambda>b.
        if b = ''{"_embedded":{"documents":[]}}'' then
          (\<lparr>listDocumentsResponse.Links = Map.empty, Embedded = [''documents'' \<mapsto> []]\<rparr>, None)
        else (\<lparr>listDocumentsResponse.Links = Map.empty, Embedded = Map.empty\<rparr>, Some syntax_error)),
      Decode_Document = (\<lambda>b.
        if b = ''{"id":"doc-1"}'' then (zero_Document\<lparr>Document.ID := ''doc-1''\<rparr>, None)
        else (zero_Document, Some syntax_error)),
      Decode_createFudingSourceToken = (\<lambda>b.
        (\<lparr>Token = [], Links = Map.empty\<rparr>, Some syntax_error)),
      Decode_ListResourcesResponse = (\<lambda>b.
        if b = ''{"_embedded":{"funding-sources":[]}}'' then
          (\<lparr>ListResourcesResponse.Links = Map.empty, Embedded = [''funding-sources'' \<mapsto> []]\<rparr>, None)
        else (\<lparr>ListResourcesResponse.Links = Map.empty, Embedded = Map.empty\<rparr>, Some syntax_error)),
      Decode_ListTransferResponse = (\<lambda>b.
        if b = ''{"_embedded":{"transfers":[]}}'' then
          (\<lparr>ListTransferResponse.Embedded = [''transfers'' \<mapsto> []]\<rparr>, None)
        else (\<lparr>ListTransferResponse.Embedded = Map.empty\<rparr>, Some syntax_error)),
      CreateFormFile = (\<lambda>field name. Inr (field @ ''; '' @ name @ '': '')),
      WriteField = (\<lambda>field v. Inr (''; '' @ field @ '': '' @ v)),
      Close = ''.''\<rparr>\<close>

definition reply :: "int \<Rightarrow> string \<Rightarrow> string \<Rightarrow> Response" where
  "reply code status body =
     \<lparr>StatusCode = code, Status = status, Response.Header = Map.empty, Body = body\<rparr>"

definition created_response :: Response where
  "created_response =
     \<lparr>StatusCode = 201, Status = ''201 Created'',
      Response.Header = [''Location'' \<mapsto> [''https://api-sandbox.example.com/customers/abc-123'']],
      Body = []\<rparr>"

text \<open>The customer \<^verbatim>\<open>xyz\<close> as the API returns it, with its \<^verbatim>\<open>self\<close> link.\<close>

definition customer_linked :: Customer where
  "customer_linked =
     customer_xyz\<lparr>Customer.Links := [''self'' \<mapsto> \<lparr>Href = ''https://api-sandbox.example.com/customers/xyz''\<rparr>]\<rparr>"

text \<open>A remote side that answers 200 with a body that is not JSON.\<close>

definition garbled :: "unit World" where
  "garbled = answering (reply 200 ''200 OK'' ''<html>'')"

text \<open>Responses with status 200 and the bodies the decoders know.\<close>

definition no_customers :: Response where
  \<open>no_customers = reply 200 ''200 OK'' ''{"_embedded":{"customers":[]}}''\<close>

definition no_documents :: Response where
  \<open>no_documents = reply 200 ''200 OK'' ''{"_embedded":{"documents":[]}}''\<close>

definition no_funding_sources :: Response where
  \<open>no_funding_sources = reply 200 ''200 OK'' ''{"_embedded":{"funding-sources":[]}}''\<close>

definition no_transfers :: Response where
  \<open>no_transfers = reply 200 ''200 OK'' ''{"_embedded":{"transfers":[]}}''\<close>

definition one_customer :: Response where
  \<open>one_customer = reply 200 ''200 OK'' ''{"_embedded":{"customers":[{"id":"abc-123"}]}}''\<close>

definition one_document :: Response where
  \<open>one_document = reply 200 ''200 OK'' ''{"id":"doc-1"}''\<close>

text \<open>A response with status 403.\<close>

definition forbidden :: Response where
  "forbidden = reply 403 ''403 Forbidden'' []"


section \<open>Properties\<close>

lemma TrimPrefix_append: "TrimPrefix (p @ s) p = s"
  by (simp add: TrimPrefix_def HasPrefix_def)

lemma responses_no_effects: "responses w no_effects = []"
  by (simp add: responses_def no_effects_def List.map_filter_def)

lemma responses_sent:
  "responses w \<lparr>sent = [req], stdout = out\<rparr> = (case Do w req of Inl err \<Rightarrow> [] | Inr res \<Rightarrow> [res])"
  by (simp add: responses_def List.map_filter_def split: sum.splits)

lemma responses_sent_only:
  "responses w (sent_only req) = (case Do w req of Inl err \<Rightarrow> [] | Inr res \<Rightarrow> [res])"
  by (simp add: sent_only_def responses_sent)

lemmas responses_simps = responses_no_effects responses_sent responses_sent_only

lemmas model_defs =
  NewRequest_def req_Header_Add_def Header_Add_def Header_Get_def index_slices_def
  index_links_def Let_def

subsection \<open>Customer creation\<close>

lemma Create_201:
  assumes "res \<in> set (responses w (snd (Create w (Some cl) cu)))"
    and "StatusCode res = 201"
  shows "fst (Create w (Some cl) cu) =
           Inr (TrimPrefix (Header_Get (Response.Header res) ''Location'') (RootURL cl @ ''/customers/''))"
  using assms unfolding Create_def Let_def
  by (auto simp: responses_simps split: sum.splits if_splits)

lemma Create_created_response:
  "Create (answering created_response) (Some sandbox_client) zero_Customer =
     (Inr ''abc-123'',
      sent_only \<lparr>Method = ''POST'', URL = ''https://api-sandbox.example.com/customers'',
                 Request.Header = [''Authorization'' \<mapsto> [''Bearer tok''],
                                   ''Accept'' \<mapsto> [''application/vnd.dwolla.v1.hal+json''],
                                   ''Content-Type'' \<mapsto> [''application/vnd.dwolla.v1.hal+json'']],
                 Body = Some ''{}''\<rparr>)"
  by (simp add: Create_def model_defs answering_def sandbox_client_def created_response_def
        TrimPrefix_def HasPrefix_def)

text \<open>
  Claim C1. Whenever \<^verbatim>\<open>Create\<close> receives a response with status 201, it returns the
  \<^verbatim>\<open>Location\<close> header of that response with the prefix \<^verbatim>\<open>rootURL + "/customers/"\<close>
  stripped and no error; so a \<^verbatim>\<open>Location\<close> of the form
  \<^verbatim>\<open>rootURL + "/customers/" + id\<close> yields \<^verbatim>\<open>id\<close>.
\<close>

theorem Create_201_Location:
  assumes "res \<in> set (responses w (snd (Create w (Some cl) cu)))"
    and "StatusCode res = 201"
  shows "fst (Create w (Some cl) cu) =
           Inr (TrimPrefix (Header_Get (Response.Header res) ''Location'') (RootURL cl @ ''/customers/''))
       \<and> (\<forall>cid. Header_Get (Response.Header res) ''Location'' = RootURL cl @ ''/customers/'' @ cid
             \<longrightarrow> fst (Create w (Some cl) cu) = Inr cid)"
proof (intro conjI allI impI)
  show r: "fst (Create w (Some cl) cu) =
           Inr (TrimPrefix (Header_Get (Response.Header res) ''Location'') (RootURL cl @ ''/customers/''))"
    using assms by (rule Create_201)
  fix cid
  assume "Header_Get (Response.Header res) ''Location'' = RootURL cl @ ''/customers/'' @ cid"
  then have "Header_Get (Response.Header res) ''Location'' = (RootURL cl @ ''/customers/'') @ cid"
    by simp
  then show "fst (Create w (Some cl) cu) = Inr cid"
    using r by (simp only: TrimPrefix_append)
qed

text \<open>
  The scenario of the specification: root \<^verbatim>\<open>https://api-sandbox.example.com\<close>, status 201
  and \<^verbatim>\<open>Location: https://api-sandbox.example.com/customers/abc-123\<close>.
\<close>

theorem Create_201_Location_witness:
  "created_response \<in> set (responses (answering created_response)
       (snd (Create (answering created_response) (Some sandbox_client) zero_Customer)))
   \<and> StatusCode created_response = 201
   \<and> RootURL sandbox_client = ''https://api-sandbox.example.com''
   \<and> Header_Get (Response.Header created_response) ''Location''
       = ''https://api-sandbox.example.com/customers/abc-123''
   \<and> fst (Create (answering created_response) (Some sandbox_client) zero_Customer) = Inr ''abc-123''"
proof -
  have h1: "created_response \<in> set (responses (answering created_response)
       (snd (Create (answering created_response) (Some sandbox_client) zero_Customer)))"
    by (simp add: Create_created_response responses_simps) (simp add: answering_def)
  have h2: "StatusCode created_response = 201"
    by (simp add: created_response_def)
  have h3: "Header_Get (Response.Header created_response) ''Location''
       = RootURL sandbox_client @ ''/customers/'' @ ''abc-123''"
    by (simp add: created_response_def Header_Get_def index_slices_def sandbox_client_def)
  from Create_201_Location [OF h1 h2] h3
  have "fst (Create (answering created_response) (Some sandbox_client) zero_Customer) = Inr ''abc-123''"
    by blast
  with h1 h2 h3 show ?thesis
    by (simp add: sandbox_client_def)
qed

subsection \<open>Requests\<close>

lemma URL_req_Header_Add: "URL (req_Header_Add req k v) = URL req"
  by (simp add: req_Header_Add_def)

lemma NewRequest_URL: "NewRequest w method url body = Inr req \<Longrightarrow> URL req = url"
  by (auto simp: NewRequest_def split: option.splits)

lemma no_effects_sent: "sent no_effects = []"
  by (simp add: no_effects_def)

lemma sent_only_sent: "sent (sent_only req) = [req]"
  by (simp add: sent_only_def)

subsection \<open>Document upload\<close>

lemma AddDocument_reply:
  "AddDocument (answering (reply code status body)) customer_xyz passport_file ''passport'' =
     ((if code = 201 then Inr ()
       else if code = 403 then Inl (Err (New ''not authorized to uplaod document to customer''))
       else if code = 404 then Inl (Err (New ''account not found''))
       else Inl (Err (New status))),
      sent_only \<lparr>Method = ''POST'', URL = ''https://api-sandbox.example.com/customers/+xyz/documents'',
                 Request.Header = [''Authorization'' \<mapsto> [''Bearer tok''],
                                   ''Accept'' \<mapsto> [''application/vnd.dwolla.v1.hal+json''],
                                   ''Content-Type'' \<mapsto> [''multipart/form-data; boundary=----WebKitFormBoundary7MA4YWxkTrZu0gW''],
                                   ''Cache-Control'' \<mapsto> [''no-cache'']],
                 Body = Some ''file; passport.png: PNG; documentType: passport.''\<rparr>)"
  by (simp add: AddDocument_def model_defs answering_def reply_def sandbox_client_def
        customer_xyz_def zero_Customer_def passport_file_def)

lemma AddDocument_URL:
  assumes "req \<in> set (sent (snd (AddDocument w cu file documentType)))"
    and "Customer.Client cu = Some c"
  shows "URL req = RootURL c @ ''/customers/+'' @ Customer.ID cu @ ''/documents''"
  using assms unfolding AddDocument_def Let_def
  by (auto simp: no_effects_sent sent_only_sent URL_req_Header_Add dest: NewRequest_URL
           split: sum.splits option.splits if_splits)

lemma AddDocument_success:
  assumes "fst (AddDocument w cu file documentType) = Inr ()"
  shows "\<exists>res. responses w (snd (AddDocument w cu file documentType)) = [res] \<and> StatusCode res = 201"
  using assms unfolding AddDocument_def Let_def
  by (auto simp: responses_simps split: sum.splits option.splits if_splits)

text \<open>
  Claim C7. Once \<^verbatim>\<open>AddDocument\<close> has received a response, it returns no error exactly
  when the status of that response is 201, whatever the body of the response holds; on
  every other status it returns an error. (Without a response it returns an error or
  panics: lemma \<open>AddDocument_success\<close>.)
\<close>

theorem AddDocument_201:
  assumes "res \<in> set (responses w (snd (AddDocument w cu file documentType)))"
  shows "(fst (AddDocument w cu file documentType) = Inr ()) = (StatusCode res = 201)
       \<and> (StatusCode res = 201 \<or> (\<exists>e. fst (AddDocument w cu file documentType) = Inl (Err e)))"
  using assms unfolding AddDocument_def Let_def
  by (auto simp: responses_simps split: sum.splits option.splits if_splits)

text \<open>A 201 response with a body that is not JSON, and a 500 response.\<close>

theorem AddDocument_201_witness:
  "reply 201 ''201 Created'' ''<html>'' \<in> set (responses (answering (reply 201 ''201 Created'' ''<html>''))
      (snd (AddDocument (answering (reply 201 ''201 Created'' ''<html>'')) customer_xyz passport_file ''passport'')))
   \<and> fst (AddDocument (answering (reply 201 ''201 Created'' ''<html>'')) customer_xyz passport_file ''passport'') = Inr ()
   \<and> reply 500 ''500 Internal Server Error'' [] \<in> set (responses (answering (reply 500 ''500 Internal Server Error'' []))
      (snd (AddDocument (answering (reply 500 ''500 Internal Server Error'' [])) customer_xyz passport_file ''passport'')))
   \<and> (\<exists>e. fst (AddDocument (answering (reply 500 ''500 Internal Server Error'' [])) customer_xyz passport_file ''passport'') = Inl (Err e))"
proof -
  have h1: "reply 201 ''201 Created'' ''<html>'' \<in> set (responses (answering (reply 201 ''201 Created'' ''<html>''))
      (snd (AddDocument (answering (reply 201 ''201 Created'' ''<html>'')) customer_xyz passport_file ''passport'')))"
    by (simp add: AddDocument_reply responses_simps) (simp add: answering_def)
  have h2: "reply 500 ''500 Internal Server Error'' [] \<in> set (responses (answering (reply 500 ''500 Internal Server Error'' []))
      (snd (AddDocument (answering (reply 500 ''500 Internal Server Error'' [])) customer_xyz passport_file ''passport'')))"
    by (simp add: AddDocument_reply responses_simps) (simp add: answering_def)
  have s1: "StatusCode (reply 201 ''201 Created'' ''<html>'') = 201"
    and s2: "StatusCode (reply 500 ''500 Internal Server Error'' []) \<noteq> 201"
    by (simp_all add: reply_def)
  from AddDocument_201 [OF h1] s1
  have r1: "fst (AddDocument (answering (reply 201 ''201 Created'' ''<html>'')) customer_xyz passport_file ''passport'') = Inr ()"
    by blast
  from AddDocument_201 [OF h2] s2
  have r2: "\<exists>e. fst (AddDocument (answering (reply 500 ''500 Internal Server Error'' [])) customer_xyz passport_file ''passport'') = Inl (Err e)"
    by blast
  from h1 r1 h2 r2 show ?thesis by blast
qed

text \<open>
  Claim C6. The claim places the upload at \<^verbatim>\<open>rootURL + "/customers/" + id + "/documents"\<close>.
  The code builds \<^verbatim>\<open>c.RootURL()+"/customers/+"+cu.ID+"/documents"\<close>, with a plus sign
  inside the string literal (lemma \<open>AddDocument_URL\<close>); \<^verbatim>\<open>ListDocuments\<close> builds the
  path of the claim. For the customer \<^verbatim>\<open>xyz\<close> the request goes to
  \<^verbatim>\<open>/customers/+xyz/documents\<close>.
\<close>

theorem AddDocument_request_path:
  "map URL (sent (snd (AddDocument (answering (reply 201 ''201 Created'' [])) customer_xyz
                         passport_file ''passport'')))
     = [''https://api-sandbox.example.com/customers/+xyz/documents'']
   \<and> ''https://api-sandbox.example.com/customers/+xyz/documents''
       \<noteq> RootURL sandbox_client @ ''/customers/'' @ Customer.ID customer_xyz @ ''/documents''"
  by (simp add: AddDocument_reply sent_only_def)
     (simp add: sandbox_client_def customer_xyz_def zero_Customer_def)

subsection \<open>Transfers of a customer\<close>






subsection \<open>List operations\<close>

lemma List_range_slice: "fst (List_range c xs s) = fst s"
  by (induction c xs s rule: List_range.induct) simp_all

lemma List_200:
  assumes "res \<in> set (responses w (snd (List w c)))" and "StatusCode res = 200"
  shows "fst (List w c) =
           Inr (index_slices (listCustomersResponse.Embedded
                  (fst (Decode_listCustomersResponse w (Response.Body res)))) ''customers'')"
  using assms unfolding List_def Let_def
  by (auto simp: responses_simps split_beta List_range_slice split: sum.splits option.splits if_splits)

lemma ListDocuments_200:
  assumes "res \<in> set (responses w (snd (ListDocuments w cu)))" and "StatusCode res = 200"
  shows "fst (ListDocuments w cu) =
           Inr (index_slices (listDocumentsResponse.Embedded
                  (fst (Decode_listDocumentsResponse w (Response.Body res)))) ''documents'')"
  using assms unfolding ListDocuments_def Let_def
  by (auto simp: responses_simps split_beta split: sum.splits option.splits if_splits)

lemma ListFundingSources_200:
  assumes "res \<in> set (responses w (snd (ListFundingSources w cu)))" and "StatusCode res = 200"
  shows "fst (ListFundingSources w cu) =
           Inr (ListFundingSources_range cu
                  (index_slices (ListResourcesResponse.Embedded
                     (fst (Decode_ListResourcesResponse w (Response.Body res)))) ''funding-sources'') [])"
  using assms unfolding ListFundingSources_def Let_def
  by (auto simp: responses_simps split_beta split: sum.splits option.splits if_splits)

lemma ListTransfers_200:
  assumes "res \<in> set (responses w (snd (ListTransfers w cu)))" and "StatusCode res = 200"
  shows "fst (ListTransfers w cu) =
           Inr (index_slices (ListTransferResponse.Embedded
                  (fst (Decode_ListTransferResponse w (Response.Body res)))) ''transfers'')"
  using assms unfolding ListTransfers_def Let_def
  by (auto simp: responses_simps split_beta split: sum.splits option.splits if_splits)

lemmas test_defs = answering_def reply_def sandbox_client_def customer_xyz_def customer_linked_def
  zero_Customer_def

lemma List_received:
  "responses (answering res) (snd (List (answering res) (Some sandbox_client))) = [res]"
  unfolding List_def Let_def
  by (simp add: responses_simps NewRequest_def answering_def sandbox_client_def split_beta)

lemma ListDocuments_received:
  "responses (answering res) (snd (ListDocuments (answering res) customer_xyz)) = [res]"
  unfolding ListDocuments_def Let_def
  by (simp add: responses_simps NewRequest_def test_defs split_beta)

lemma ListFundingSources_received:
  "responses (answering res) (snd (ListFundingSources (answering res) customer_xyz)) = [res]"
  unfolding ListFundingSources_def Let_def
  by (simp add: responses_simps NewRequest_def test_defs split_beta)

lemma ListTransfers_received:
  "responses (answering res) (snd (ListTransfers (answering res) customer_linked)) = [res]"
  unfolding ListTransfers_def Let_def
  by (simp add: responses_simps NewRequest_def test_defs split_beta)

text \<open>
  Claim C4. For \<^verbatim>\<open>List\<close>, \<^verbatim>\<open>ListDocuments\<close>, \<^verbatim>\<open>ListFundingSources\<close> and
  \<^verbatim>\<open>ListTransfers\<close>: on a response with status 200 whose decoded envelope has no
  entries under the collection key of the operation, the operation returns the empty
  sequence and no error.
\<close>

theorem list_zero_entries:
  "(res \<in> set (responses w (snd (List w c))) \<and> StatusCode res = 200
      \<and> index_slices (listCustomersResponse.Embedded
           (fst (Decode_listCustomersResponse w (Response.Body res)))) ''customers'' = []
     \<longrightarrow> fst (List w c) = Inr [])
   \<and> (res \<in> set (responses w (snd (ListDocuments w cu))) \<and> StatusCode res = 200
      \<and> index_slices (listDocumentsResponse.Embedded
           (fst (Decode_listDocumentsResponse w (Response.Body res)))) ''documents'' = []
     \<longrightarrow> fst (ListDocuments w cu) = Inr [])
   \<and> (res \<in> set (responses w (snd (ListFundingSources w cu))) \<and> StatusCode res = 200
      \<and> index_slices (ListResourcesResponse.Embedded
           (fst (Decode_ListResourcesResponse w (Response.Body res)))) ''funding-sources'' = []
     \<longrightarrow> fst (ListFundingSources w cu) = Inr [])
   \<and> (res \<in> set (responses w (snd (ListTransfers w cu))) \<and> StatusCode res = 200
      \<and> index_slices (ListTransferResponse.Embedded
           (fst (Decode_ListTransferResponse w (Response.Body res)))) ''transfers'' = []
     \<longrightarrow> fst (ListTransfers w cu) = Inr [])"
proof (intro conjI impI)
  assume "res \<in> set (responses w (snd (List w c))) \<and> StatusCode res = 200
      \<and> index_slices (listCustomersResponse.Embedded
           (fst (Decode_listCustomersResponse w (Response.Body res)))) ''customers'' = []"
  then show "fst (List w c) = Inr []"
    using List_200 [of res w c] by simp
next
  assume "res \<in> set (responses w (snd (ListDocuments w cu))) \<and> StatusCode res = 200
      \<and> index_slices (listDocumentsResponse.Embedded
           (fst (Decode_listDocumentsResponse w (Response.Body res)))) ''documents'' = []"
  then show "fst (ListDocuments w cu) = Inr []"
    using ListDocuments_200 [of res w cu] by simp
next
  assume "res \<in> set (responses w (snd (ListFundingSources w cu))) \<and> StatusCode res = 200
      \<and> index_slices (ListResourcesResponse.Embedded
           (fst (Decode_ListResourcesResponse w (Response.Body res)))) ''funding-sources'' = []"
  then show "fst (ListFundingSources w cu) = Inr []"
    using ListFundingSources_200 [of res w cu] by simp
next
  assume "res \<in> set (responses w (snd (ListTransfers w cu))) \<and> StatusCode res = 200
      \<and> index_slices (ListTransferResponse.Embedded
           (fst (Decode_ListTransferResponse w (Response.Body res)))) ''transfers'' = []"
  then show "fst (ListTransfers w cu) = Inr []"
    using ListTransfers_200 [of res w cu] by simp
qed

text \<open>
  The four envelopes with an empty collection; the third is the scenario of the
  specification, \<^verbatim>\<open>GET /customers/xyz/funding-sources\<close> answered by
  \<^verbatim>\<open>{"_embedded":{"funding-sources":[]}}\<close>.
\<close>

theorem list_zero_entries_witness:
  "no_customers \<in> set (responses (answering no_customers) (snd (List (answering no_customers) (Some sandbox_client))))
   \<and> StatusCode no_customers = 200
   \<and> fst (List (answering no_customers) (Some sandbox_client)) = Inr []
   \<and> no_documents \<in> set (responses (answering no_documents) (snd (ListDocuments (answering no_documents) customer_xyz)))
   \<and> StatusCode no_documents = 200
   \<and> fst (ListDocuments (answering no_documents) customer_xyz) = Inr []
   \<and> no_funding_sources \<in> set (responses (answering no_funding_sources)
         (snd (ListFundingSources (answering no_funding_sources) customer_xyz)))
   \<and> StatusCode no_funding_sources = 200
   \<and> fst (ListFundingSources (answering no_funding_sources) customer_xyz) = Inr []
   \<and> no_transfers \<in> set (responses (answering no_transfers) (snd (ListTransfers (answering no_transfers) customer_linked)))
   \<and> StatusCode no_transfers = 200
   \<and> fst (ListTransfers (answering no_transfers) customer_linked) = Inr []"
proof -
  have s: "StatusCode no_customers = 200" "StatusCode no_documents = 200"
    "StatusCode no_funding_sources = 200" "StatusCode no_transfers = 200"
    by (simp_all add: no_customers_def no_documents_def no_funding_sources_def no_transfers_def reply_def)
  have e1: "index_slices (listCustomersResponse.Embedded
           (fst (Decode_listCustomersResponse (answering no_customers) (Response.Body no_customers)))) ''customers'' = []"
    by (simp add: answering_def no_customers_def reply_def index_slices_def)
  have e2: "index_slices (listDocumentsResponse.Embedded
           (fst (Decode_listDocumentsResponse (answering no_documents) (Response.Body no_documents)))) ''documents'' = []"
    by (simp add: answering_def no_documents_def reply_def index_slices_def)
  have e3: "index_slices (ListResourcesResponse.Embedded
           (fst (Decode_ListResourcesResponse (answering no_funding_sources) (Response.Body no_funding_sources)))) ''funding-sources'' = []"
    by (simp add: answering_def no_funding_sources_def reply_def index_slices_def)
  have e4: "index_slices (ListTransferResponse.Embedded
           (fst (Decode_ListTransferResponse (answering no_transfers) (Response.Body no_transfers)))) ''transfers'' = []"
    by (simp add: answering_def no_transfers_def reply_def index_slices_def)
  have r1: "fst (List (answering no_customers) (Some sandbox_client)) = Inr []"
    using list_zero_entries [of no_customers "answering no_customers" "Some sandbox_client" customer_xyz]
      s e1 by (simp add: List_received)
  have r2: "fst (ListDocuments (answering no_documents) customer_xyz) = Inr []"
    using list_zero_entries [of no_documents "answering no_documents" "Some sandbox_client" customer_xyz]
      s e2 by (simp add: ListDocuments_received)
  have r3: "fst (ListFundingSources (answering no_funding_sources) customer_xyz) = Inr []"
    using list_zero_entries [of no_funding_sources "answering no_funding_sources" "Some sandbox_client" customer_xyz]
      s e3 by (simp add: ListFundingSources_received)
  have r4: "fst (ListTransfers (answering no_transfers) customer_linked) = Inr []"
    using list_zero_entries [of no_transfers "answering no_transfers" "Some sandbox_client" customer_linked]
      s e4 by (simp add: ListTransfers_received)
  show ?thesis
    using s r1 r2 r3 r4
    by (simp add: List_received ListDocuments_received ListFundingSources_received ListTransfers_received)
qed

subsection \<open>Decoding failures\<close>

text \<open>\<^verbatim>\<open>GetCustomer\<close> tests the error of \<^verbatim>\<open>Decode\<close> and wraps it.\<close>

lemma GetCustomer_decode_failure:
  "fst (GetCustomer garbled (Some sandbox_client) ''xyz'') =
     Inl (Err (Wrap syntax_error ''error parsing JSON response''))"
  unfolding GetCustomer_def Let_def
  by (simp add: garbled_def NewRequest_def test_defs split_beta)

text \<open>
  Claim C3. The claim asks that a failed decode make the operation return an error
  wrapping the failure. \<^verbatim>\<open>List\<close>, \<^verbatim>\<open>ListDocuments\<close>, \<^verbatim>\<open>GetDocument\<close>,
  \<^verbatim>\<open>CreateFundingSourceToken\<close>, \<^verbatim>\<open>CreateIAVFundingSourceToken\<close>,
  \<^verbatim>\<open>ListFundingSources\<close> and \<^verbatim>\<open>ListTransfers\<close> assign \<^verbatim>\<open>err = d.Decode(body)\<close>
  and return the body with a nil error without testing \<^verbatim>\<open>err\<close>. On a 200 response
  whose body is \<^verbatim>\<open><html>\<close> the decoder fails, and each of the seven returns the zero
  value of its result as a success.
\<close>

theorem decode_failure_ignored:
  "snd (Decode_listCustomersResponse garbled ''<html>'') = Some syntax_error
   \<and> fst (List garbled (Some sandbox_client)) = Inr []
   \<and> snd (Decode_listDocumentsResponse garbled ''<html>'') = Some syntax_error
   \<and> fst (ListDocuments garbled customer_xyz) = Inr []
   \<and> snd (Decode_Document garbled ''<html>'') = Some syntax_error
   \<and> fst (GetDocument garbled (Some sandbox_client) ''doc-1'') = Inr zero_Document
   \<and> snd (Decode_createFudingSourceToken garbled ''<html>'') = Some syntax_error
   \<and> fst (CreateFundingSourceToken garbled customer_xyz) = Inr []
   \<and> fst (CreateIAVFundingSourceToken garbled customer_xyz) = Inr []
   \<and> snd (Decode_ListResourcesResponse garbled ''<html>'') = Some syntax_error
   \<and> fst (ListFundingSources garbled customer_xyz) = Inr []
   \<and> snd (Decode_ListTransferResponse garbled ''<html>'') = Some syntax_error
   \<and> fst (ListTransfers garbled customer_linked) = Inr []"
proof -
  have d: "snd (Decode_listCustomersResponse garbled ''<html>'') = Some syntax_error"
    "snd (Decode_listDocumentsResponse garbled ''<html>'') = Some syntax_error"
    "snd (Decode_Document garbled ''<html>'') = Some syntax_error"
    "snd (Decode_createFudingSourceToken garbled ''<html>'') = Some syntax_error"
    "snd (Decode_ListResourcesResponse garbled ''<html>'') = Some syntax_error"
    "snd (Decode_ListTransferResponse garbled ''<html>'') = Some syntax_error"
    by (simp_all add: garbled_def answering_def)
  have 1: "fst (List garbled (Some sandbox_client)) = Inr []"
    unfolding List_def Let_def
    by (simp add: garbled_def NewRequest_def test_defs index_slices_def split_beta List_range_slice)
  have 2: "fst (ListDocuments garbled customer_xyz) = Inr []"
    unfolding ListDocuments_def Let_def
    by (simp add: garbled_def NewRequest_def test_defs index_slices_def split_beta)
  have 3: "fst (GetDocument garbled (Some sandbox_client) ''doc-1'') = Inr zero_Document"
    unfolding GetDocument_def Let_def
    by (simp add: garbled_def NewRequest_def test_defs split_beta)
  have 4: "fst (CreateFundingSourceToken garbled customer_xyz) = Inr []"
    unfolding CreateFundingSourceToken_def Let_def
    by (simp add: garbled_def NewRequest_def test_defs split_beta)
  have 5: "fst (CreateIAVFundingSourceToken garbled customer_xyz) = Inr []"
    unfolding CreateIAVFundingSourceToken_def Let_def
    by (simp add: garbled_def NewRequest_def test_defs split_beta)
  have 6: "fst (ListFundingSources garbled customer_xyz) = Inr []"
    unfolding ListFundingSources_def Let_def
    by (simp add: garbled_def NewRequest_def test_defs index_slices_def split_beta)
  have 7: "fst (ListTransfers garbled customer_linked) = Inr []"
    unfolding ListTransfers_def Let_def
    by (simp add: garbled_def NewRequest_def test_defs index_slices_def split_beta)
  from d 1 2 3 4 5 6 7 show ?thesis by simp
qed

subsection \<open>The client of a returned entity\<close>

text \<open>
  \<^verbatim>\<open>GetCustomer\<close> stores the client in the customer it returns, and
  \<^verbatim>\<open>ListFundingSources\<close> stores the customer's client in every resource.
\<close>

lemma GetCustomer_Client:
  assumes "fst (GetCustomer w c customerID) = Inr cu"
  shows "Customer.Client cu = c"
  using assms unfolding GetCustomer_def Let_def
  by (auto simp: split_beta split: sum.splits option.splits if_splits)

lemma ListFundingSources_range_Client:
  assumes "\<forall>s \<in> set sources. Resource.Client s = Customer.Client cu"
  shows "\<forall>s \<in> set (ListFundingSources_range cu xs sources). Resource.Client s = Customer.Client cu"
  using assms by (induction cu xs sources rule: ListFundingSources_range.induct) (simp_all add: Let_def)

lemma ListFundingSources_Client:
  assumes "fst (ListFundingSources w cu) = Inr sources" and "s \<in> set sources"
  shows "Resource.Client s = Customer.Client cu"
proof -
  have "\<exists>xs. sources = ListFundingSources_range cu xs []"
    using assms(1) unfolding ListFundingSources_def Let_def
    by (auto simp: split_beta split: sum.splits option.splits if_splits)
  then show ?thesis
    using ListFundingSources_range_Client [of "[]" cu] assms(2) by auto
qed

text \<open>
  Claim C5. The claim asks that every entity a retrieval or list operation returns hold
  the client of the call. In \<^verbatim>\<open>List\<close> the assignment \<^verbatim>\<open>customer.Client = c\<close> writes to
  the loop variable, a copy of the element, so the slice that is returned is the decoded
  one (lemma \<open>List_200\<close>); \<^verbatim>\<open>GetDocument\<close>, \<^verbatim>\<open>ListDocuments\<close> and
  \<^verbatim>\<open>ListTransfers\<close> never assign the field. A listed customer and a retrieved document
  come back with a nil \<^verbatim>\<open>Client\<close>.
\<close>

theorem entities_without_client:
  "fst (List (answering one_customer) (Some sandbox_client)) = Inr [zero_Customer\<lparr>Customer.ID := ''abc-123''\<rparr>]
   \<and> Customer.Client (zero_Customer\<lparr>Customer.ID := ''abc-123''\<rparr>) = None
   \<and> fst (GetDocument (answering one_document) (Some sandbox_client) ''doc-1'')
       = Inr (zero_Document\<lparr>Document.ID := ''doc-1''\<rparr>)
   \<and> Document.Client (zero_Document\<lparr>Document.ID := ''doc-1''\<rparr>) = None"
proof -
  have 1: "fst (List (answering one_customer) (Some sandbox_client)) = Inr [zero_Customer\<lparr>Customer.ID := ''abc-123''\<rparr>]"
    unfolding List_def Let_def
    by (simp add: one_customer_def NewRequest_def answering_def reply_def sandbox_client_def
          index_slices_def split_beta List_range_slice)
  have 2: "fst (GetDocument (answering one_document) (Some sandbox_client) ''doc-1'')
       = Inr (zero_Document\<lparr>Document.ID := ''doc-1''\<rparr>)"
    unfolding GetDocument_def Let_def
    by (simp add: one_document_def NewRequest_def answering_def reply_def sandbox_client_def split_beta)
  from 1 2 show ?thesis
    by (simp add: zero_Customer_def zero_Document_def)
qed

subsection \<open>Request headers\<close>

lemma CreateIAVFundingSourceToken_headers:
  assumes "req \<in> set (sent (snd (CreateIAVFundingSourceToken w cu)))"
  shows "Request.Header req ''Content-Type'' = None
       \<and> Request.Header req ''Conetent-Type'' = Some [''application/vnd.dwolla.v1.hal+json'']
       \<and> Request.Header req ''Accept'' = Some [''application/vnd.dwolla.v1.hal+json'']"
  using assms unfolding CreateIAVFundingSourceToken_def Let_def
  by (auto simp: no_effects_sent sent_only_sent NewRequest_def req_Header_Add_def Header_Add_def
        index_slices_def split_beta split: sum.splits option.splits if_splits)

lemma ListFundingSources_headers:
  assumes "req \<in> set (sent (snd (ListFundingSources w cu)))"
  shows "Request.Header req ''Content-Type'' = None
       \<and> Request.Header req ''Conetent-Type'' = Some [''application/vnd.dwolla.v1.hal+json'']
       \<and> Request.Header req ''Accept'' = Some [''application/vnd.dwolla.v1.hal+json'']"
  using assms unfolding ListFundingSources_def Let_def
  by (auto simp: no_effects_sent sent_only_sent NewRequest_def req_Header_Add_def Header_Add_def
        index_slices_def split_beta split: sum.splits option.splits if_splits)

text \<open>
  Claim C9. The claim asks for a header named exactly \<^verbatim>\<open>Content-Type\<close> on the requests
  of \<^verbatim>\<open>CreateIAVFundingSourceToken\<close> and \<^verbatim>\<open>ListFundingSources\<close>. Both add the vendor
  media type under the key \<^verbatim>\<open>Conetent-Type\<close>; their requests have no
  \<^verbatim>\<open>Content-Type\<close> header.
\<close>

theorem misspelled_Content_Type:
  "map (\<lambda>req. (Request.Header req ''Content-Type'', Request.Header req ''Conetent-Type''))
       (sent (snd (CreateIAVFundingSourceToken garbled customer_xyz)))
     = [(None, Some [''application/vnd.dwolla.v1.hal+json''])]
   \<and> map (\<lambda>req. (Request.Header req ''Content-Type'', Request.Header req ''Conetent-Type''))
       (sent (snd (ListFundingSources (answering no_funding_sources) customer_xyz)))
     = [(None, Some [''application/vnd.dwolla.v1.hal+json''])]"
proof -
  have 1: "map (\<lambda>req. (Request.Header req ''Content-Type'', Request.Header req ''Conetent-Type''))
       (sent (snd (CreateIAVFundingSourceToken garbled customer_xyz)))
     = [(None, Some [''application/vnd.dwolla.v1.hal+json''])]"
    unfolding CreateIAVFundingSourceToken_def Let_def
    by (simp add: garbled_def model_defs test_defs sent_only_sent split_beta)
  have 2: "map (\<lambda>req. (Request.Header req ''Content-Type'', Request.Header req ''Conetent-Type''))
       (sent (snd (ListFundingSources (answering no_funding_sources) customer_xyz)))
     = [(None, Some [''application/vnd.dwolla.v1.hal+json''])]"
    unfolding ListFundingSources_def Let_def
    by (simp add: no_funding_sources_def model_defs test_defs sent_only_sent split_beta)
  from 1 2 show ?thesis by simp
qed

subsection \<open>The facade\<close>

lemma facade_delegation:
  "Client_ListCustomers w c = List w (client c)"
  "Client_GetCustomer w c customerID = GetCustomer w (client c) customerID"
  "Client_GetDocument w c documentID = GetDocument w (client c) documentID"
  by (simp_all add: Client_ListCustomers_def Client_GetCustomer_def Client_GetDocument_def)

text \<open>
  Claim C8. The claim asks that \<^verbatim>\<open>Client.CreateCustomer\<close> return what
  \<^verbatim>\<open>customer.Create\<close> returns, the customer ID included. The declared result of
  \<^verbatim>\<open>CreateCustomer\<close> is an \<^verbatim>\<open>error\<close> alone: where \<^verbatim>\<open>Create\<close> returns the ID
  \<^verbatim>\<open>abc-123\<close>, the facade has only a nil error to return.
\<close>

theorem CreateCustomer_without_ID:
  "fst (Create (answering created_response) (Some sandbox_client) zero_Customer) = Inr ''abc-123''
   \<and> fst (Client_CreateCustomer (answering created_response) \<lparr>client = Some sandbox_client\<rparr> zero_Customer)
       = Inr ()"
  by (simp add: Client_CreateCustomer_def Create_created_response)

subsection \<open>Status codes 400, 403 and 404\<close>

text \<open>What each operation returns on a response with one of the three statuses.\<close>

lemma Create_error_status:
  assumes "res \<in> set (responses w (snd (Create w c cu)))"
    and "StatusCode res = 400 \<or> StatusCode res = 403 \<or> StatusCode res = 404"
  shows "fst (Create w c cu) =
           Inl (Err (New (if StatusCode res = 403 then ''not authorized to create customers''
              else if StatusCode res = 400 then ''duplicate customer or validation error''
              else if StatusCode res = 404 then ''account not found''
              else Response.Status res)))"
  using assms unfolding Create_def Let_def
  by (auto simp: responses_simps split_beta split: sum.splits option.splits if_splits)

lemma List_error_status:
  assumes "res \<in> set (responses w (snd (List w c)))"
    and "StatusCode res = 400 \<or> StatusCode res = 403 \<or> StatusCode res = 404"
  shows "fst (List w c) =
           Inl (Err (New (if StatusCode res = 403 then ''not authorized to list customers''
              else if StatusCode res = 404 then ''account not found''
              else Response.Status res)))"
  using assms unfolding List_def Let_def
  by (auto simp: responses_simps split_beta split: sum.splits option.splits if_splits)

lemma GetCustomer_error_status:
  assumes "res \<in> set (responses w (snd (GetCustomer w c customerID)))"
    and "StatusCode res = 400 \<or> StatusCode res = 403 \<or> StatusCode res = 404"
  shows "fst (GetCustomer w c customerID) =
           Inl (Err (New (if StatusCode res = 403 then ''not authorized to retrieve the customer''
              else if StatusCode res = 404 then ''account not found''
              else Response.Status res)))"
  using assms unfolding GetCustomer_def Let_def
  by (auto simp: responses_simps split_beta split: sum.splits option.splits if_splits)

lemma Update_error_status:
  assumes "res \<in> set (responses w (snd (Update w cu)))"
    and "StatusCode res = 400 \<or> StatusCode res = 403 \<or> StatusCode res = 404"
  shows "fst (Update w cu) =
           Inl (Err (New (if StatusCode res = 403 then ''not authorized to update the customer''
              else if StatusCode res = 404 then ''account not found''
              else Response.Status res)))"
  using assms unfolding Update_def Let_def
  by (auto simp: responses_simps split_beta split: sum.splits option.splits if_splits)

lemma AddDocument_error_status:
  assumes "res \<in> set (responses w (snd (AddDocument w cu upload documentType)))"
    and "StatusCode res = 400 \<or> StatusCode res = 403 \<or> StatusCode res = 404"
  shows "fst (AddDocument w cu upload documentType) =
           Inl (Err (New (if StatusCode res = 403 then ''not authorized to uplaod document to customer''
              else if StatusCode res = 404 then ''account not found''
              else Response.Status res)))"
  using assms unfolding AddDocument_def Let_def
  by (auto simp: responses_simps split_beta split: sum.splits option.splits if_splits)

lemma ListDocuments_error_status:
  assumes "res \<in> set (responses w (snd (ListDocuments w cu)))"
    and "StatusCode res = 400 \<or> StatusCode res = 403 \<or> StatusCode res = 404"
  shows "fst (ListDocuments w cu) =
           Inl (Err (New (if StatusCode res = 403 then ''not authorized to list customers''
              else if StatusCode res = 404 then ''account not found''
              else Response.Status res)))"
  using assms unfolding ListDocuments_def Let_def
  by (auto simp: responses_simps split_beta split: sum.splits option.splits if_splits)

lemma GetDocument_error_status:
  assumes "res \<in> set (responses w (snd (GetDocument w c documentID)))"
    and "StatusCode res = 400 \<or> StatusCode res = 403 \<or> StatusCode res = 404"
  shows "fst (GetDocument w c documentID) =
           Inl (Err (New (if StatusCode res = 403 then ''not authorized to retrieve the customer''
              else if StatusCode res = 404 then ''account not found''
              else Response.Status res)))"
  using assms unfolding GetDocument_def Let_def
  by (auto simp: responses_simps split_beta split: sum.splits option.splits if_splits)

lemma CreateFundingSource_error_status:
  assumes "res \<in> set (responses w (snd (CreateFundingSource w cu f)))"
    and "StatusCode res = 400 \<or> StatusCode res = 403 \<or> StatusCode res = 404"
  shows "fst (CreateFundingSource w cu f) =
           Inl (Err (New (if StatusCode res = 403 then ''not authorized to create funding source''
              else if StatusCode res = 400 then ''duplicate funding source or validation error. Authorization already associated to a funding source''
              else Response.Status res)))"
  using assms unfolding CreateFundingSource_def Let_def
  by (auto simp: responses_simps split_beta split: sum.splits option.splits if_splits)

lemma CreateFundingSourceToken_error_status:
  assumes "res \<in> set (responses w (snd (CreateFundingSourceToken w cu)))"
    and "StatusCode res = 400 \<or> StatusCode res = 403 \<or> StatusCode res = 404"
  shows "fst (CreateFundingSourceToken w cu) =
           Inl (Err (New (if StatusCode res = 404 then ''customer not found''
              else Response.Status res)))"
  using assms unfolding CreateFundingSourceToken_def Let_def
  by (auto simp: responses_simps split_beta split: sum.splits option.splits if_splits)

lemma CreateIAVFundingSourceToken_error_status:
  assumes "res \<in> set (responses w (snd (CreateIAVFundingSourceToken w cu)))"
    and "StatusCode res = 400 \<or> StatusCode res = 403 \<or> StatusCode res = 404"
  shows "fst (CreateIAVFundingSourceToken w cu) =
           Inl (Err (New (if StatusCode res = 404 then ''customer not found''
              else Response.Status res)))"
  using assms unfolding CreateIAVFundingSourceToken_def Let_def
  by (auto simp: responses_simps split_beta split: sum.splits option.splits if_splits)

lemma ListFundingSources_error_status:
  assumes "res \<in> set (responses w (snd (ListFundingSources w cu)))"
    and "StatusCode res = 400 \<or> StatusCode res = 403 \<or> StatusCode res = 404"
  shows "fst (ListFundingSources w cu) =
           Inl (Err (New (if StatusCode res = 403 then ''not authorized to list funding sources''
              else if StatusCode res = 404 then ''customer not found''
              else Response.Status res)))"
  using assms unfolding ListFundingSources_def Let_def
  by (auto simp: responses_simps split_beta split: sum.splits option.splits if_splits)

lemma ListTransfers_error_status:
  assumes "res \<in> set (responses w (snd (ListTransfers w cu)))"
    and "StatusCode res = 400 \<or> StatusCode res = 403 \<or> StatusCode res = 404"
  shows "fst (ListTransfers w cu) =
           Inl (Err (New (if StatusCode res = 403 then ''not authorized to list transfers''
              else if StatusCode res = 404 then ''customer not found''
              else Response.Status res)))"
  using assms unfolding ListTransfers_def Let_def
  by (auto simp: responses_simps split_beta split: sum.splits option.splits if_splits)

lemma Create_received:
  "responses (answering res) (snd (Create (answering res) (Some sandbox_client) zero_Customer)) = [res]"
  unfolding Create_def Let_def
  by (simp add: responses_simps NewRequest_def test_defs passport_file_def split_beta)

lemma GetCustomer_received:
  "responses (answering res) (snd (GetCustomer (answering res) (Some sandbox_client) ''xyz'')) = [res]"
  unfolding GetCustomer_def Let_def
  by (simp add: responses_simps NewRequest_def test_defs passport_file_def split_beta)

lemma Update_received:
  "responses (answering res) (snd (Update (answering res) customer_xyz)) = [res]"
  unfolding Update_def Let_def
  by (simp add: responses_simps NewRequest_def test_defs passport_file_def split_beta)

lemma AddDocument_received:
  "responses (answering res) (snd (AddDocument (answering res) customer_xyz passport_file ''passport'')) = [res]"
  unfolding AddDocument_def Let_def
  by (simp add: responses_simps NewRequest_def test_defs passport_file_def split_beta)

lemma GetDocument_received:
  "responses (answering res) (snd (GetDocument (answering res) (Some sandbox_client) ''doc-1'')) = [res]"
  unfolding GetDocument_def Let_def
  by (simp add: responses_simps NewRequest_def test_defs passport_file_def split_beta)

lemma CreateFundingSource_received:
  "responses (answering res) (snd (CreateFundingSource (answering res) customer_xyz zero_Resource)) = [res]"
  unfolding CreateFundingSource_def Let_def
  by (simp add: responses_simps NewRequest_def test_defs passport_file_def split_beta)

lemma CreateFundingSourceToken_received:
  "responses (answering res) (snd (CreateFundingSourceToken (answering res) customer_xyz)) = [res]"
  unfolding CreateFundingSourceToken_def Let_def
  by (simp add: responses_simps NewRequest_def test_defs passport_file_def split_beta)

lemma CreateIAVFundingSourceToken_received:
  "responses (answering res) (snd (CreateIAVFundingSourceToken (answering res) customer_xyz)) = [res]"
  unfolding CreateIAVFundingSourceToken_def Let_def
  by (simp add: responses_simps NewRequest_def test_defs passport_file_def split_beta)

lemmas received =
  Create_received List_received GetCustomer_received Update_received AddDocument_received ListDocuments_received GetDocument_received CreateFundingSource_received CreateFundingSourceToken_received CreateIAVFundingSourceToken_received ListFundingSources_received ListTransfers_received

text \<open>
  Claim C2, as stated, fails. The claim asks every operation to return, on each of 400,
  403 and 404, an error of the category documented for that status. The switch of
  \<^verbatim>\<open>CreateFundingSourceToken\<close> has the cases 200 and 404 only, so a 403 response
  reaches the default case and the error carries the raw status text
  \<^verbatim>\<open>403 Forbidden\<close>, which is not a ``not authorized to ...'' error.
\<close>

theorem CreateFundingSourceToken_403:
  "StatusCode forbidden = 403
   \<and> forbidden \<in> set (responses (answering forbidden)
                          (snd (CreateFundingSourceToken (answering forbidden) customer_xyz)))
   \<and> fst (CreateFundingSourceToken (answering forbidden) customer_xyz) = Inl (Err (New ''403 Forbidden''))
   \<and> \<not> (\<exists>e. fst (CreateFundingSourceToken (answering forbidden) customer_xyz) = Inl (Err e)
            \<and> in_category (documented_category (StatusCode forbidden)) (Response.Status forbidden) e)"
proof -
  have r: "fst (CreateFundingSourceToken (answering forbidden) customer_xyz) = Inl (Err (New ''403 Forbidden''))"
    unfolding CreateFundingSourceToken_def Let_def
    by (simp add: forbidden_def NewRequest_def test_defs split_beta)
  have c: "\<not> in_category (documented_category (StatusCode forbidden)) (Response.Status forbidden)
               (New ''403 Forbidden'')"
    by (simp add: forbidden_def reply_def documented_category_def HasPrefix_def)
  have s: "StatusCode forbidden = 403"
    by (simp add: forbidden_def reply_def)
  from r c s show ?thesis
    by (simp add: received)
qed

text \<open>
  Claim C2, amended. On a response with status 400, 403 or 404 every operation of the
  customer module returns an error, never a success value. The error is the fixed
  message of the operation for that status where its switch has a case for it
  (\<^verbatim>\<open>Create\<close>: 400, 403, 404; \<^verbatim>\<open>CreateFundingSource\<close>: 400, 403;
  \<^verbatim>\<open>CreateFundingSourceToken\<close> and \<^verbatim>\<open>CreateIAVFundingSourceToken\<close>: 404; the other
  eight: 403, 404), and otherwise, from the default case, an error carrying the raw HTTP
  status text.
\<close>

theorem error_statuses:
  "(res \<in> set (responses w (snd (Create w c cu)))
      \<and> (StatusCode res = 400 \<or> StatusCode res = 403 \<or> StatusCode res = 404)
     \<longrightarrow> fst (Create w c cu) =
           Inl (Err (New (if StatusCode res = 403 then ''not authorized to create customers''
              else if StatusCode res = 400 then ''duplicate customer or validation error''
              else if StatusCode res = 404 then ''account not found''
              else Response.Status res))))
   \<and> (res \<in> set (responses w (snd (List w c)))
      \<and> (StatusCode res = 400 \<or> StatusCode res = 403 \<or> StatusCode res = 404)
     \<longrightarrow> fst (List w c) =
           Inl (Err (New (if StatusCode res = 403 then ''not authorized to list customers''
              else if StatusCode res = 404 then ''account not found''
              else Response.Status res))))
   \<and> (res \<in> set (responses w (snd (GetCustomer w c customerID)))
      \<and> (StatusCode res = 400 \<or> StatusCode res = 403 \<or> StatusCode res = 404)
     \<longrightarrow> fst (GetCustomer w c customerID) =
           Inl (Err (New (if StatusCode res = 403 then ''not authorized to retrieve the customer''
              else if StatusCode res = 404 then ''account not found''
              else Response.Status res))))
   \<and> (res \<in> set (responses w (snd (Update w cu)))
      \<and> (StatusCode res = 400 \<or> StatusCode res = 403 \<or> StatusCode res = 404)
     \<longrightarrow> fst (Update w cu) =
           Inl (Err (New (if StatusCode res = 403 then ''not authorized to update the customer''
              else if StatusCode res = 404 then ''account not found''
              else Response.Status res))))
   \<and> (res \<in> set (responses w (snd (AddDocument w cu upload documentType)))
      \<and> (StatusCode res = 400 \<or> StatusCode res = 403 \<or> StatusCode res = 404)
     \<longrightarrow> fst (AddDocument w cu upload documentType) =
           Inl (Err (New (if StatusCode res = 403 then ''not authorized to uplaod document to customer''
              else if StatusCode res = 404 then ''account not found''
              else Response.Status res))))
   \<and> (res \<in> set (responses w (snd (ListDocuments w cu)))
      \<and> (StatusCode res = 400 \<or> StatusCode res = 403 \<or> StatusCode res = 404)
     \<longrightarrow> fst (ListDocuments w cu) =
           Inl (Err (New (if StatusCode res = 403 then ''not authorized to list customers''
              else if StatusCode res = 404 then ''account not found''
              else Response.Status res))))
   \<and> (res \<in> set (responses w (snd (GetDocument w c documentID)))
      \<and> (StatusCode res = 400 \<or> StatusCode res = 403 \<or> StatusCode res = 404)
     \<longrightarrow> fst (GetDocument w c documentID) =
           Inl (Err (New (if StatusCode res = 403 then ''not authorized to retrieve the customer''
              else if StatusCode res = 404 then ''account not found''
              else Response.Status res))))
   \<and> (res \<in> set (responses w (snd (CreateFundingSource w cu f)))
      \<and> (StatusCode res = 400 \<or> StatusCode res = 403 \<or> StatusCode res = 404)
     \<longrightarrow> fst (CreateFundingSource w cu f) =
           Inl (Err (New (if StatusCode res = 403 then ''not authorized to create funding source''
              else if StatusCode res = 400 then ''duplicate funding source or validation error. Authorization already associated to a funding source''
              else Response.Status res))))
   \<and> (res \<in> set (responses w (snd (CreateFundingSourceToken w cu)))
      \<and> (StatusCode res = 400 \<or> StatusCode res = 403 \<or> StatusCode res = 404)
     \<longrightarrow> fst (CreateFundingSourceToken w cu) =
           Inl (Err (New (if StatusCode res = 404 then ''customer not found''
              else Response.Status res))))
   \<and> (res \<in> set (responses w (snd (CreateIAVFundingSourceToken w cu)))
      \<and> (StatusCode res = 400 \<or> StatusCode res = 403 \<or> StatusCode res = 404)
     \<longrightarrow> fst (CreateIAVFundingSourceToken w cu) =
           Inl (Err (New (if StatusCode res = 404 then ''customer not found''
              else Response.Status res))))
   \<and> (res \<in> set (responses w (snd (ListFundingSources w cu)))
      \<and> (StatusCode res = 400 \<or> StatusCode res = 403 \<or> StatusCode res = 404)
     \<longrightarrow> fst (ListFundingSources w cu) =
           Inl (Err (New (if StatusCode res = 403 then ''not authorized to list funding sources''
              else if StatusCode res = 404 then ''customer not found''
              else Response.Status res))))
   \<and> (res \<in> set (responses w (snd (ListTransfers w cu)))
      \<and> (StatusCode res = 400 \<or> StatusCode res = 403 \<or> StatusCode res = 404)
     \<longrightarrow> fst (ListTransfers w cu) =
           Inl (Err (New (if StatusCode res = 403 then ''not authorized to list transfers''
              else if StatusCode res = 404 then ''customer not found''
              else Response.Status res))))"
  by (intro conjI impI)
     (simp_all only: Create_error_status List_error_status GetCustomer_error_status Update_error_status AddDocument_error_status ListDocuments_error_status GetDocument_error_status CreateFundingSource_error_status CreateFundingSourceToken_error_status CreateIAVFundingSourceToken_error_status ListFundingSources_error_status ListTransfers_error_status)

text \<open>The twelve operations on a 403 response.\<close>

theorem error_statuses_witness:
  "StatusCode forbidden = 403
   \<and> forbidden \<in> set (responses (answering forbidden) (snd (Create (answering forbidden) (Some sandbox_client) zero_Customer)))
   \<and> fst (Create (answering forbidden) (Some sandbox_client) zero_Customer) = Inl (Err (New ''not authorized to create customers''))
   \<and> forbidden \<in> set (responses (answering forbidden) (snd (List (answering forbidden) (Some sandbox_client))))
   \<and> fst (List (answering forbidden) (Some sandbox_client)) = Inl (Err (New ''not authorized to list customers''))
   \<and> forbidden \<in> set (responses (answering forbidden) (snd (GetCustomer (answering forbidden) (Some sandbox_client) ''xyz'')))
   \<and> fst (GetCustomer (answering forbidden) (Some sandbox_client) ''xyz'') = Inl (Err (New ''not authorized to retrieve the customer''))
   \<and> forbidden \<in> set (responses (answering forbidden) (snd (Update (answering forbidden) customer_xyz)))
   \<and> fst (Update (answering forbidden) customer_xyz) = Inl (Err (New ''not authorized to update the customer''))
   \<and> forbidden \<in> set (responses (answering forbidden) (snd (AddDocument (answering forbidden) customer_xyz passport_file ''passport'')))
   \<and> fst (AddDocument (answering forbidden) customer_xyz passport_file ''passport'') = Inl (Err (New ''not authorized to uplaod document to customer''))
   \<and> forbidden \<in> set (responses (answering forbidden) (snd (ListDocuments (answering forbidden) customer_xyz)))
   \<and> fst (ListDocuments (answering forbidden) customer_xyz) = Inl (Err (New ''not authorized to list customers''))
   \<and> forbidden \<in> set (responses (answering forbidden) (snd (GetDocument (answering forbidden) (Some sandbox_client) ''doc-1'')))
   \<and> fst (GetDocument (answering forbidden) (Some sandbox_client) ''doc-1'') = Inl (Err (New ''not authorized to retrieve the customer''))
   \<and> forbidden \<in> set (responses (answering forbidden) (snd (CreateFundingSource (answering forbidden) customer_xyz zero_Resource)))
   \<and> fst (CreateFundingSource (answering forbidden) customer_xyz zero_Resource) = Inl (Err (New ''not authorized to create funding source''))
   \<and> forbidden \<in> set (responses (answering forbidden) (snd (CreateFundingSourceToken (answering forbidden) customer_xyz)))
   \<and> fst (CreateFundingSourceToken (answering forbidden) customer_xyz) = Inl (Err (New ''403 Forbidden''))
   \<and> forbidden \<in> set (responses (answering forbidden) (snd (CreateIAVFundingSourceToken (answering forbidden) customer_xyz)))
   \<and> fst (CreateIAVFundingSourceToken (answering forbidden) customer_xyz) = Inl (Err (New ''403 Forbidden''))
   \<and> forbidden \<in> set (responses (answering forbidden) (snd (ListFundingSources (answering forbidden) customer_xyz)))
   \<and> fst (ListFundingSources (answering forbidden) customer_xyz) = Inl (Err (New ''not authorized to list funding sources''))
   \<and> forbidden \<in> set (responses (answering forbidden) (snd (ListTransfers (answering forbidden) customer_linked)))
   \<and> fst (ListTransfers (answering forbidden) customer_linked) = Inl (Err (New ''not authorized to list transfers''))"
proof -
  have s: "StatusCode forbidden = 403" "Response.Status forbidden = ''403 Forbidden''"
    by (simp_all add: forbidden_def reply_def)
  note t = error_statuses [where res = forbidden and w = "answering forbidden"
      and c = "Some sandbox_client" and customerID = "''xyz''" and documentID = "''doc-1''"
      and upload = passport_file and documentType = "''passport''" and f = zero_Resource]
  have "fst (Create (answering forbidden) (Some sandbox_client) zero_Customer)
          = Inl (Err (New ''not authorized to create customers''))"
    using t [where cu = zero_Customer] s by (simp add: received)
  moreover have "fst (ListTransfers (answering forbidden) customer_linked)
          = Inl (Err (New ''not authorized to list transfers''))"
    using t [where cu = customer_linked] s by (simp add: received)
  moreover have
    "fst (List (answering forbidden) (Some sandbox_client)) = Inl (Err (New ''not authorized to list customers''))"
    "fst (GetCustomer (answering forbidden) (Some sandbox_client) ''xyz'') = Inl (Err (New ''not authorized to retrieve the customer''))"
    "fst (Update (answering forbidden) customer_xyz) = Inl (Err (New ''not authorized to update the customer''))"
    "fst (AddDocument (answering forbidden) customer_xyz passport_file ''passport'') = Inl (Err (New ''not authorized to uplaod document to customer''))"
    "fst (ListDocuments (answering forbidden) customer_xyz) = Inl (Err (New ''not authorized to list customers''))"
    "fst (GetDocument (answering forbidden) (Some sandbox_client) ''doc-1'') = Inl (Err (New ''not authorized to retrieve the customer''))"
    "fst (CreateFundingSource (answering forbidden) customer_xyz zero_Resource) = Inl (Err (New ''not authorized to create funding source''))"
    "fst (CreateFundingSourceToken (answering forbidden) customer_xyz) = Inl (Err (New ''403 Forbidden''))"
    "fst (CreateIAVFundingSourceToken (answering forbidden) customer_xyz) = Inl (Err (New ''403 Forbidden''))"
    "fst (ListFundingSources (answering forbidden) customer_xyz) = Inl (Err (New ''not authorized to list funding sources''))"
    using t [where cu = customer_xyz] s by (simp_all add: received)
  ultimately show ?thesis
    using s by (simp add: received)
qed

end
